theory Spec2Isabelle
  imports Main "HOL-Library.AList" "HOL-Library.Sublist"
begin

section \<open>JavaScript values\<close>

text \<open>
  Frontmatter, query results and the validator's argument are untyped at run time
  (\<^verbatim>\<open>any\<close>), so they are modelled by a datatype of JSON-like values. Objects are
  association lists read with \<open>map_of\<close> (the first binding of a key is the property).
  Numbers are restricted to integers; functions, symbols and cyclic objects are not
  represented.
\<close>

datatype jsval =
    JUndefined
  | JNull
  | JBool bool
  | JNum int
  | JStr string
  | JArr "jsval list"
  | JObj "(string \<times> jsval) list"

type_synonym obj = "(string \<times> jsval) list"

text \<open>What a \<^verbatim>\<open>throw\<close> carries: a TypeError raised by the runtime, another
  \<^verbatim>\<open>Error\<close> instance with its message, or any other thrown value.\<close>

datatype thrown = TypeError string | ErrorObj string | ThrownVal jsval

fun truthy :: "jsval \<Rightarrow> bool" where
  "truthy JUndefined = False"
| "truthy JNull = False"
| "truthy (JBool b) = b"
| "truthy (JNum n) = (n \<noteq> 0)"
| "truthy (JStr s) = (s \<noteq> [])"
| "truthy (JArr xs) = True"
| "truthy (JObj kvs) = True"

fun nullish :: "jsval \<Rightarrow> bool" where
  "nullish JUndefined = True"
| "nullish JNull = True"
| "nullish v = False"

fun isArray :: "jsval \<Rightarrow> bool" where
  "isArray (JArr xs) = True"
| "isArray v = False"

text \<open>\<^verbatim>\<open>a === b\<close>. Primitives compare by value. Arrays and objects compare by
  reference; the two operands of every \<^verbatim>\<open>===\<close> in the source are read from
  different parsed documents (or one is a string literal), so two arrays or two objects
  are never the same reference there.\<close>

fun strict_eq :: "jsval \<Rightarrow> jsval \<Rightarrow> bool" where
  "strict_eq JUndefined JUndefined = True"
| "strict_eq JNull JNull = True"
| "strict_eq (JBool a) (JBool b) = (a = b)"
| "strict_eq (JNum a) (JNum b) = (a = b)"
| "strict_eq (JStr a) (JStr b) = (a = b)"
| "strict_eq a b = False"

text \<open>\<^verbatim>\<open>o.k\<close> on an object literal or parsed mapping: a missing key reads as
  \<^verbatim>\<open>undefined\<close>.\<close>

definition field :: "obj \<Rightarrow> string \<Rightarrow> jsval" where
  "field kvs k = (case map_of kvs k of None \<Rightarrow> JUndefined | Some v \<Rightarrow> v)"

text \<open>\<^verbatim>\<open>v?.k\<close>: \<^verbatim>\<open>undefined\<close> on \<^verbatim>\<open>null\<close> and \<^verbatim>\<open>undefined\<close>. Strings and arrays
  have \<^verbatim>\<open>length\<close>; none of the other keys the source reads (\<^verbatim>\<open>file\<close>, \<^verbatim>\<open>path\<close>,
  \<^verbatim>\<open>name\<close>, \<^verbatim>\<open>status\<close>, \<^verbatim>\<open>color\<close>, \<^verbatim>\<open>limit\<close>, \<^verbatim>\<open>collapsed\<close>, \<^verbatim>\<open>columns\<close>,
  \<^verbatim>\<open>successful\<close>, \<^verbatim>\<open>value\<close>, \<^verbatim>\<open>error\<close>) is a property of a primitive or of an
  array, and \<^verbatim>\<open>values\<close> is only read off a value that is not an array.\<close>

fun opt_prop :: "jsval \<Rightarrow> string \<Rightarrow> jsval" where
  "opt_prop (JObj kvs) k = field kvs k"
| "opt_prop (JArr xs) k = (if k = ''length'' then JNum (int (length xs)) else JUndefined)"
| "opt_prop (JStr s) k = (if k = ''length'' then JNum (int (length s)) else JUndefined)"
| "opt_prop v k = JUndefined"

text \<open>\<^verbatim>\<open>v.k\<close>: a TypeError on \<^verbatim>\<open>null\<close> and \<^verbatim>\<open>undefined\<close>.\<close>

definition get_prop :: "jsval \<Rightarrow> string \<Rightarrow> thrown + jsval" where
  "get_prop v k =
     (if nullish v then Inl (TypeError (''Cannot read properties of null or undefined: '' @ k))
      else Inr (opt_prop v k))"

text \<open>\<^verbatim>\<open>a || b\<close> and \<^verbatim>\<open>a ?? b\<close>.\<close>

definition js_or :: "jsval \<Rightarrow> jsval \<Rightarrow> jsval" where
  "js_or a b = (if truthy a then a else b)"

definition js_coalesce :: "jsval \<Rightarrow> jsval \<Rightarrow> jsval" where
  "js_coalesce a b = (if nullish a then b else a)"

text \<open>Sequencing of steps that may throw.\<close>

definition thenE :: "thrown + 'a \<Rightarrow> ('a \<Rightarrow> thrown + 'b) \<Rightarrow> thrown + 'b" where
  "thenE m f = (case m of Inl e \<Rightarrow> Inl e | Inr x \<Rightarrow> f x)"

text \<open>\<^verbatim>\<open>xs.map(f)\<close> for a callback that may throw: the first throw ends the loop.\<close>

fun mapE :: "('a \<Rightarrow> thrown + 'b) \<Rightarrow> 'a list \<Rightarrow> thrown + 'b list" where
  "mapE f [] = Inr []"
| "mapE f (x # xs) =
     (case f x of
        Inl e \<Rightarrow> Inl e
      | Inr y \<Rightarrow> (case mapE f xs of Inl e \<Rightarrow> Inl e | Inr ys \<Rightarrow> Inr (y # ys)))"

text \<open>A number as a template literal and \<^verbatim>\<open>String\<close> print it, in decimal.\<close>

definition digit :: "nat \<Rightarrow> char" where
  "digit d = ''0123456789'' ! d"

fun decimal :: "nat \<Rightarrow> string" where
  "decimal n = (if 10 \<le> n then decimal (n div 10) @ [digit (n mod 10)] else [digit n])"

declare decimal.simps [simp del]

definition number_text :: "int \<Rightarrow> string" where
  "number_text i = (if 0 \<le> i then decimal (nat i) else CHR ''-'' # decimal (nat (- i)))"

fun join :: "string \<Rightarrow> string list \<Rightarrow> string" where
  "join sep [] = []"
| "join sep [x] = x"
| "join sep (x # y # ys) = x @ sep @ join sep (y # ys)"

text \<open>\<^verbatim>\<open>String(v)\<close>, which is also what a template literal applies (for objects
  that have no \<^verbatim>\<open>toString\<close> or \<^verbatim>\<open>valueOf\<close> key of their own).\<close>

fun js_String :: "jsval \<Rightarrow> string" where
  "js_String JUndefined = ''undefined''"
| "js_String JNull = ''null''"
| "js_String (JBool b) = (if b then ''true'' else ''false'')"
| "js_String (JNum n) = number_text n"
| "js_String (JStr s) = s"
| "js_String (JArr xs) = join '','' (map (\<lambda>x. if nullish x then [] else js_String x) xs)"
| "js_String (JObj kvs) = ''[object Object]''"

section \<open>The data model (types.ts)\<close>

record TFile =
  path :: string
  basename :: string

record CardFile =
  cf_file :: TFile
  cf_path :: string
  cf_name :: string

record CardData =
  card_file :: CardFile
  metadata :: obj
  title :: string
  content :: string

record ColumnConfig =
  name :: jsval
  status :: jsval
  color :: jsval
  limit :: jsval
  collapsed :: jsval

record BoardConfig =
  btype :: string
  boardId :: jsval
  columns :: "ColumnConfig list"
  cardTemplate :: jsval
  autoRefresh :: jsval
  refreshInterval :: jsval

record KanbanColumn =
  config :: ColumnConfig
  cards :: "CardData list"

record DataviewQueryResult =
  successful :: jsval
  qvalue :: jsval
  error :: jsval

section \<open>BoardView.groupCards\<close>

text \<open>\<^verbatim>\<open>card.metadata.status\<close>.\<close>

definition card_status :: "CardData \<Rightarrow> jsval" where
  "card_status c = field (metadata c) ''status''"

definition groupCards :: "BoardConfig \<Rightarrow> CardData list \<Rightarrow> KanbanColumn list" where
  "groupCards cfg cs =
     map (\<lambda>columnConfig.
            \<lparr>config = columnConfig,
             cards = filter (\<lambda>c. strict_eq (card_status c) (status columnConfig)) cs\<rparr>)
         (columns cfg)"

section \<open>Validator.validateBoardConfig (utils/validation.ts)\<close>

record validation =
  valid :: bool
  errors :: "string list"

text \<open>The callback of \<^verbatim>\<open>forEach\<close>, run over the columns from \<open>index\<close> on, pushing onto
  \<open>errs\<close>. Reading \<^verbatim>\<open>col.name\<close> throws when \<open>col\<close> is \<^verbatim>\<open>null\<close> or \<^verbatim>\<open>undefined\<close>.\<close>

fun forEach_column :: "string list \<Rightarrow> jsval list \<Rightarrow> nat \<Rightarrow> thrown + string list" where
  "forEach_column errs [] index = Inr errs"
| "forEach_column errs (col # rest) index =
     (case get_prop col ''name'' of
        Inl e \<Rightarrow> Inl e
      | Inr nm \<Rightarrow>
          (case get_prop col ''status'' of
             Inl e \<Rightarrow> Inl e
           | Inr st \<Rightarrow>
               forEach_column
                 ((if \<not> truthy nm
                   then errs @ [''Column '' @ decimal (index + 1) @ '' missing name'']
                   else errs) @
                  (if \<not> truthy st
                   then [''Column '' @ decimal (index + 1) @ '' missing status value'']
                   else []))
                 rest (Suc index)))"

text \<open>\<^verbatim>\<open>config.columns?.forEach(...)\<close>: skipped on \<^verbatim>\<open>null\<close> and \<^verbatim>\<open>undefined\<close>; any
  other value that is not an array has no \<^verbatim>\<open>forEach\<close>, and calling it is a TypeError.\<close>

definition columns_forEach :: "jsval \<Rightarrow> string list \<Rightarrow> thrown + string list" where
  "columns_forEach cols errs =
     (if nullish cols then Inr errs
      else case cols of
             JArr xs \<Rightarrow> forEach_column errs xs 0
           | _ \<Rightarrow> Inl (TypeError ''config.columns?.forEach is not a function''))"

definition validateBoardConfig :: "jsval \<Rightarrow> thrown + validation" where
  "validateBoardConfig cfg =
     thenE (get_prop cfg ''columns'') (\<lambda>cols.
       let errors1 = (if \<not> truthy cols \<or> \<not> isArray cols
                      then [''Board must have columns defined''] else []);
           errors2 = (if truthy cols \<and> strict_eq (opt_prop cols ''length'') (JNum 0)
                      then errors1 @ [''Board must have at least one column''] else errors1)
       in thenE (columns_forEach cols errors2) (\<lambda>errs.
            Inr \<lparr>valid = (length errs = 0), errors = errs\<rparr>))"

text \<open>A \<^verbatim>\<open>BoardConfig\<close> object as the untyped value the validator receives.\<close>

definition js_of_ColumnConfig :: "ColumnConfig \<Rightarrow> jsval" where
  "js_of_ColumnConfig col =
     JObj [(''name'', name col), (''status'', status col), (''color'', color col),
           (''limit'', limit col), (''collapsed'', collapsed col)]"

definition js_of_BoardConfig :: "BoardConfig \<Rightarrow> jsval" where
  "js_of_BoardConfig cfg =
     JObj [(''type'', JStr (btype cfg)), (''boardId'', boardId cfg),
           (''columns'', JArr (map js_of_ColumnConfig (columns cfg))),
           (''cardTemplate'', cardTemplate cfg), (''autoRefresh'', autoRefresh cfg),
           (''refreshInterval'', refreshInterval cfg)]"

section \<open>BoardParser (board/BoardParser.ts)\<close>

record CachedMetadata =
  frontmatter :: "obj option"

text \<open>\<^verbatim>\<open>cache?.frontmatter?.type === "kanban-board"\<close>.\<close>

definition isBoardFile :: "CachedMetadata option \<Rightarrow> bool" where
  "isBoardFile cache =
     (case cache of
        None \<Rightarrow> False
      | Some c \<Rightarrow>
          (case frontmatter c of
             None \<Rightarrow> False
           | Some fm \<Rightarrow> strict_eq (field fm ''type'') (JStr ''kanban-board'')))"

text \<open>The callback of \<^verbatim>\<open>map\<close> in \<^verbatim>\<open>parseBoardConfig\<close>.\<close>

definition parse_column :: "jsval \<Rightarrow> thrown + ColumnConfig" where
  "parse_column col =
     thenE (get_prop col ''name'') (\<lambda>nm.
     thenE (get_prop col ''status'') (\<lambda>st.
     thenE (get_prop col ''color'') (\<lambda>co.
     thenE (get_prop col ''limit'') (\<lambda>li.
     thenE (get_prop col ''collapsed'') (\<lambda>cl.
       Inr \<lparr>name = js_or nm (JStr ''Unnamed''),
            status = js_or st (JStr []),
            color = co,
            limit = li,
            collapsed = js_coalesce cl (JBool False)\<rparr>)))))"

text \<open>\<^verbatim>\<open>(fm.columns || []).map(...)\<close>: the receiver is never \<^verbatim>\<open>null\<close> or
  \<^verbatim>\<open>undefined\<close>; when it is not an array it has no \<^verbatim>\<open>map\<close>.\<close>

definition columns_map :: "jsval \<Rightarrow> thrown + ColumnConfig list" where
  "columns_map v =
     (case v of
        JArr xs \<Rightarrow> mapE parse_column xs
      | _ \<Rightarrow> Inl (TypeError ''(fm.columns || []).map is not a function''))"

definition parseBoardConfig :: "CachedMetadata \<Rightarrow> thrown + BoardConfig option" where
  "parseBoardConfig cache =
     (if \<not> isBoardFile (Some cache) then Inr None
      else case frontmatter cache of
             None \<Rightarrow> Inl (TypeError ''Cannot read properties of undefined: columns'')
           | Some fm \<Rightarrow>
               thenE (columns_map (js_or (field fm ''columns'') (JArr []))) (\<lambda>cols.
                 Inr (Some \<lparr>btype = ''kanban-board'',
                            boardId = js_or (field fm ''board-id'') (JStr []),
                            columns = cols,
                            cardTemplate = field fm ''card-template'',
                            autoRefresh = js_coalesce (field fm ''auto-refresh'') (JBool True),
                            refreshInterval =
                              js_coalesce (field fm ''refresh-interval'') (JNum 30)\<rparr>)))"

text \<open>The host's regular-expression engine and \<^verbatim>\<open>String.prototype.trim\<close> are taken as
  parameters: \<open>dataviewjs_match\<close> is capture group 1 of the fenced-block pattern of
  \<^verbatim>\<open>extractDataviewQuery\<close>, \<open>strip_frontmatter\<close> the \<^verbatim>\<open>replace\<close> and
  \<open>heading_match\<close> capture group 1 of the heading pattern of \<^verbatim>\<open>extractTitle\<close>;
  \<open>read_fault\<close> is what \<^verbatim>\<open>vault.read\<close> and \<^verbatim>\<open>processFrontMatter\<close> throw for a
  file that is gone; \<open>string_positive s\<close> is \<^verbatim>\<open>Number(s) > 0\<close>.\<close>

record host =
  dataviewjs_match :: "string \<Rightarrow> string option"
  trim :: "string \<Rightarrow> string"
  strip_frontmatter :: "string \<Rightarrow> string"
  heading_match :: "string \<Rightarrow> string option"
  read_fault :: "string \<Rightarrow> thrown"
  string_positive :: "string \<Rightarrow> bool"

definition extractDataviewQuery :: "host \<Rightarrow> string \<Rightarrow> string option" where
  "extractDataviewQuery h body_text =
     (case dataviewjs_match h body_text of
        None \<Rightarrow> None
      | Some m1 \<Rightarrow> if m1 = [] then None else Some (trim h m1))"

definition getDefaultQuery :: "jsval \<Rightarrow> string" where
  "getDefaultQuery bid =
     ''dv.pages().where(p => p.board === '' @ [CHR 0x22] @ js_String bid @ [CHR 0x22] @
     '' && p.status)''"

section \<open>The vault, the metadata cache and the console\<close>

text \<open>A document of the vault: the metadata cache's entry for it (\<open>None\<close> when
  \<^verbatim>\<open>getFileCache\<close> returns \<^verbatim>\<open>null\<close>), its text and its base name. The cache is kept
  in step with the file: what \<^verbatim>\<open>processFrontMatter\<close> writes is what
  \<^verbatim>\<open>getFileCache\<close> reads next.\<close>

record document =
  cache :: "CachedMetadata option"
  body :: string
  base :: string

datatype entry = File document | Folder

datatype logged = LoggedValue jsval | LoggedFault thrown

record world =
  files :: "(string \<times> entry) list"
  console :: "(string \<times> logged) list"
  dataview_calls :: "(string \<times> string) list"

datatype TAbstractFile = IsFile TFile | IsFolder string

definition getAbstractFileByPath :: "world \<Rightarrow> string \<Rightarrow> TAbstractFile option" where
  "getAbstractFileByPath w p =
     (case map_of (files w) p of
        None \<Rightarrow> None
      | Some Folder \<Rightarrow> Some (IsFolder p)
      | Some (File d) \<Rightarrow> Some (IsFile \<lparr>path = p, basename = base d\<rparr>))"

definition getFileCache :: "world \<Rightarrow> TFile \<Rightarrow> CachedMetadata option" where
  "getFileCache w f =
     (case map_of (files w) (path f) of
        Some (File d) \<Rightarrow> cache d
      | _ \<Rightarrow> None)"

definition vault_read :: "host \<Rightarrow> world \<Rightarrow> TFile \<Rightarrow> thrown + string" where
  "vault_read h w f =
     (case map_of (files w) (path f) of
        Some (File d) \<Rightarrow> Inr (body d)
      | _ \<Rightarrow> Inl (read_fault h (path f)))"

text \<open>The metadata block of a document as \<^verbatim>\<open>processFrontMatter\<close> hands it to its
  callback: the empty object when the document has none.\<close>

definition current_frontmatter :: "world \<Rightarrow> TFile \<Rightarrow> obj" where
  "current_frontmatter w f =
     (case getFileCache w f of
        None \<Rightarrow> []
      | Some c \<Rightarrow> (case frontmatter c of None \<Rightarrow> [] | Some m \<Rightarrow> m))"

text \<open>Modelled from the spec: \<^verbatim>\<open>app.fileManager.processFrontMatter\<close> is the host's
  read-modify-write of one document's metadata block (MetadataStore in the spec): it
  reads the block, runs the callback on it and writes the result back to that document;
  a document that is gone is a failure.\<close>

definition processFrontMatter :: "host \<Rightarrow> world \<Rightarrow> TFile \<Rightarrow> (obj \<Rightarrow> obj) \<Rightarrow> thrown + world" where
  "processFrontMatter h w f fn =
     (case map_of (files w) (path f) of
        Some (File d) \<Rightarrow>
          Inr (w\<lparr>files :=
                   AList.update (path f)
                     (File (d\<lparr>cache := Some \<lparr>frontmatter = Some (fn (current_frontmatter w f))\<rparr>\<rparr>))
                     (files w)\<rparr>)
      | _ \<Rightarrow> Inl (read_fault h (path f)))"

section \<open>DataviewHelper (utils/dataview.ts)\<close>

text \<open>The Dataview API: \<open>None\<close> when the plugin is not installed; otherwise its
  \<^verbatim>\<open>query\<close> method, which returns a result value or throws.\<close>

type_synonym dataview_api = "(string \<Rightarrow> string \<Rightarrow> thrown + jsval) option"

definition isAvailable :: "dataview_api \<Rightarrow> bool" where
  "isAvailable api = (api \<noteq> None)"

text \<open>\<^verbatim>\<open>error instanceof Error ? error.message : String(error)\<close>.\<close>

fun error_message :: "thrown \<Rightarrow> string" where
  "error_message (TypeError m) = m"
| "error_message (ErrorObj m) = m"
| "error_message (ThrownVal v) = js_String v"

definition DataviewHelper_executeQuery ::
    "dataview_api \<Rightarrow> world \<Rightarrow> string \<Rightarrow> string \<Rightarrow> world \<times> DataviewQueryResult" where
  "DataviewHelper_executeQuery api w query sourcePath =
     (case api of
        None \<Rightarrow>
          (w, \<lparr>successful = JBool False, qvalue = JUndefined,
               error = JStr ''Dataview plugin is not installed or enabled''\<rparr>)
      | Some run \<Rightarrow>
          (let w1 = w\<lparr>dataview_calls := dataview_calls w @ [(query, sourcePath)]\<rparr>
           in case thenE (run query sourcePath) (\<lambda>result.
                   thenE (get_prop result ''successful'') (\<lambda>s.
                   thenE (get_prop result ''value'') (\<lambda>v.
                   thenE (get_prop result ''error'') (\<lambda>e.
                     Inr \<lparr>successful = s, qvalue = v, error = e\<rparr>)))) of
                Inr r \<Rightarrow> (w1, r)
              | Inl err \<Rightarrow>
                  (w1, \<lparr>successful = JBool False, qvalue = JUndefined,
                        error = JStr (error_message err)\<rparr>)))"

text \<open>The callback of \<^verbatim>\<open>map\<close> in \<^verbatim>\<open>parsePageResults\<close>.\<close>

definition page_path :: "jsval \<Rightarrow> thrown + jsval" where
  "page_path item =
     (case item of
        JStr s \<Rightarrow> Inr item
      | _ \<Rightarrow>
          thenE (get_prop item ''file'') (\<lambda>f.
            if truthy (opt_prop f ''path'') then Inr (opt_prop f ''path'')
            else thenE (get_prop item ''path'') (\<lambda>p.
                   if truthy p then Inr p else Inr JNull)))"

function parsePageResults :: "jsval \<Rightarrow> thrown + jsval list" where
  "parsePageResults result =
     (if \<not> truthy result then Inr []
      else if isArray result then
        (case result of
           JArr items \<Rightarrow> thenE (mapE page_path items) (\<lambda>ps. Inr (filter truthy ps))
         | _ \<Rightarrow> Inr [])
      else if truthy (opt_prop result ''values'') then parsePageResults (opt_prop result ''values'')
      else Inr [])"
  by pat_completeness auto
termination
proof (relation "measure size")
  show "wf (measure (size :: jsval \<Rightarrow> nat))" by simp
next
  fix result :: jsval
  assume arr: "\<not> isArray result" and tr: "truthy (opt_prop result ''values'')"
  have lookup: "map_of kvs k = Some v \<Longrightarrow> size v < Suc (size_list (size_prod (\<lambda>x. 0) size) kvs)"
    for kvs :: obj and k v
    by (induction kvs) (auto split: if_splits)
  from arr tr have "size (opt_prop result ''values'') < size result"
    by (cases result) (auto simp: field_def dest: lookup split: option.splits)
  then show "(opt_prop result ''values'', result) \<in> measure size" by simp
qed

declare parsePageResults.simps [simp del]

section \<open>FrontmatterHelper (utils/frontmatter.ts) and CardManager (card/CardManager.ts)\<close>

text \<open>\<^verbatim>\<open>{ ...literal, ...src }\<close>: the properties of \<open>src\<close> override those written
  before it.\<close>

definition spread :: "obj \<Rightarrow> obj \<Rightarrow> obj" where
  "spread literal src = AList.merge literal src"

definition getCardMetadata :: "world \<Rightarrow> TFile \<Rightarrow> obj option" where
  "getCardMetadata w f =
     (case getFileCache w f of
        None \<Rightarrow> None
      | Some c \<Rightarrow>
          (case frontmatter c of
             None \<Rightarrow> None
           | Some fm \<Rightarrow>
               Some (spread [(''status'', field fm ''status''),
                             (''priority'', field fm ''priority''),
                             (''due'', field fm ''due''),
                             (''assignee'', field fm ''assignee''),
                             (''board'', field fm ''board''),
                             (''tags'', js_or (field fm ''tags'') (JArr []))] fm)))"

text \<open>The callback \<^verbatim>\<open>updateCardStatus\<close> hands to \<^verbatim>\<open>processFrontMatter\<close>; \<open>now\<close> is
  \<^verbatim>\<open>new Date().toISOString()\<close>.\<close>

definition status_callback :: "string \<Rightarrow> string \<Rightarrow> obj \<Rightarrow> obj" where
  "status_callback newStatus now fm =
     AList.update ''last-updated'' (JStr now) (AList.update ''status'' (JStr newStatus) fm)"

definition updateCardStatus :: "host \<Rightarrow> world \<Rightarrow> TFile \<Rightarrow> string \<Rightarrow> string \<Rightarrow> thrown + world" where
  "updateCardStatus h w f newStatus now = processFrontMatter h w f (status_callback newStatus now)"

definition updateStatus :: "host \<Rightarrow> world \<Rightarrow> TFile \<Rightarrow> string \<Rightarrow> string \<Rightarrow> thrown + world" where
  "updateStatus h w f newStatus now = updateCardStatus h w f newStatus now"

definition extractTitle :: "host \<Rightarrow> string \<Rightarrow> string option" where
  "extractTitle h body_text =
     (let withoutFrontmatter = strip_frontmatter h body_text
      in case heading_match h withoutFrontmatter of
           None \<Rightarrow> None
         | Some m1 \<Rightarrow> if m1 \<noteq> [] then Some m1 else None)"

definition loadCard :: "host \<Rightarrow> world \<Rightarrow> TFile \<Rightarrow> thrown + CardData option" where
  "loadCard h w f =
     (case getCardMetadata w f of
        None \<Rightarrow> Inr None
      | Some md \<Rightarrow>
          thenE (vault_read h w f) (\<lambda>body_text.
            let t = (case extractTitle h body_text of
                       None \<Rightarrow> basename f
                     | Some s \<Rightarrow> if s \<noteq> [] then s else basename f)
            in Inr (Some \<lparr>card_file = \<lparr>cf_file = f, cf_path = path f, cf_name = basename f\<rparr>,
                          metadata = md, title = t, content = body_text\<rparr>)))"

fun CardManager_loadCards :: "host \<Rightarrow> world \<Rightarrow> TFile list \<Rightarrow> thrown + CardData list" where
  "CardManager_loadCards h w [] = Inr []"
| "CardManager_loadCards h w (f # fs) =
     (case loadCard h w f of
        Inl e \<Rightarrow> Inl e
      | Inr c \<Rightarrow>
          (case CardManager_loadCards h w fs of
             Inl e \<Rightarrow> Inl e
           | Inr rest \<Rightarrow> Inr (case c of None \<Rightarrow> rest | Some cd \<Rightarrow> cd # rest)))"

section \<open>QueryExecutor (board/QueryExecutor.ts)\<close>

text \<open>No file has a path that is not a string, so the vault finds nothing for one.\<close>

fun getFilesFromPaths :: "world \<Rightarrow> jsval list \<Rightarrow> TFile list" where
  "getFilesFromPaths w [] = []"
| "getFilesFromPaths w (p # ps) =
     (case p of
        JStr s \<Rightarrow>
          (case getAbstractFileByPath w s of
             Some (IsFile f) \<Rightarrow> f # getFilesFromPaths w ps
           | _ \<Rightarrow> getFilesFromPaths w ps)
      | _ \<Rightarrow> getFilesFromPaths w ps)"

definition QueryExecutor_executeQuery ::
    "host \<Rightarrow> dataview_api \<Rightarrow> world \<Rightarrow> string \<Rightarrow> string \<Rightarrow> world \<times> (thrown + CardData list)" where
  "QueryExecutor_executeQuery h api w query sourcePath =
     (case DataviewHelper_executeQuery api w query sourcePath of
        (w1, result) \<Rightarrow>
          if \<not> truthy (successful result)
          then (w1\<lparr>console := console w1 @
                      [(''Query execution failed:'', LoggedValue (error result))]\<rparr>, Inr [])
          else (w1, thenE (parsePageResults (qvalue result)) (\<lambda>filePaths.
                      CardManager_loadCards h w1 (getFilesFromPaths w1 filePaths))))"

section \<open>CardRenderer (board/CardRenderer.ts) and ColumnRenderer (board/ColumnRenderer.ts)\<close>

text \<open>
  The elements the renderers build are not modelled, only whether building them throws.
  Creating an element, setting its text, class or data attribute, adding a listener and
  formatting a date (an invalid one prints as such) do not throw; calling \<^verbatim>\<open>slice\<close>,
  \<^verbatim>\<open>forEach\<close> or \<^verbatim>\<open>replace\<close> on a value that has no such method does.
\<close>

text \<open>\<^verbatim>\<open>x > 0\<close>: the operand is converted to a number first, an array through its
  string form; \<^verbatim>\<open>undefined\<close> and plain objects convert to NaN.\<close>

fun js_positive :: "host \<Rightarrow> jsval \<Rightarrow> bool" where
  "js_positive h JUndefined = False"
| "js_positive h JNull = False"
| "js_positive h (JBool b) = b"
| "js_positive h (JNum n) = (0 < n)"
| "js_positive h (JStr s) = string_positive h s"
| "js_positive h (JArr xs) = string_positive h (js_String (JArr xs))"
| "js_positive h (JObj kvs) = False"

definition renderPriority :: "jsval \<Rightarrow> thrown + unit" where
  "renderPriority priority = Inr ()"

definition renderDueDate :: "jsval \<Rightarrow> thrown + unit" where
  "renderDueDate dueDate = Inr ()"

text \<open>\<^verbatim>\<open>name.replace(...)\<close> and \<^verbatim>\<open>tag.replace(...)\<close>: only a string has the
  method.\<close>

definition string_replace :: "jsval \<Rightarrow> thrown + unit" where
  "string_replace v =
     (case v of
        JStr s \<Rightarrow> Inr ()
      | _ \<Rightarrow> if nullish v
             then Inl (TypeError ''Cannot read properties of null or undefined: replace'')
             else Inl (TypeError ''replace is not a function''))"

definition renderAssignee :: "jsval \<Rightarrow> thrown + unit" where
  "renderAssignee assignee =
     thenE (case assignee of JStr s \<Rightarrow> Inr assignee | _ \<Rightarrow> get_prop assignee ''path'')
       (\<lambda>nm. string_replace nm)"

text \<open>\<^verbatim>\<open>tags.slice(0, 3)\<close>: arrays and strings have the method.\<close>

definition tags_slice :: "jsval \<Rightarrow> thrown + jsval" where
  "tags_slice tags =
     (case tags of
        JArr xs \<Rightarrow> Inr (JArr (take 3 xs))
      | JStr s \<Rightarrow> Inr (JStr (take 3 s))
      | _ \<Rightarrow> if nullish tags
             then Inl (TypeError ''Cannot read properties of null or undefined: slice'')
             else Inl (TypeError ''tags.slice is not a function''))"

definition renderTags :: "jsval \<Rightarrow> thrown + unit" where
  "renderTags tags =
     thenE (tags_slice tags) (\<lambda>displayTags.
       case displayTags of
         JArr ys \<Rightarrow> thenE (mapE string_replace ys) (\<lambda>done. Inr ())
       | _ \<Rightarrow> Inl (TypeError ''displayTags.forEach is not a function''))"

definition CardRenderer_render :: "host \<Rightarrow> CardData \<Rightarrow> thrown + unit" where
  "CardRenderer_render h c =
     thenE (if truthy (field (metadata c) ''priority'')
            then renderPriority (field (metadata c) ''priority'') else Inr ()) (\<lambda>p.
     thenE (if truthy (field (metadata c) ''due'')
            then renderDueDate (field (metadata c) ''due'') else Inr ()) (\<lambda>d.
     thenE (if truthy (field (metadata c) ''assignee'')
            then renderAssignee (field (metadata c) ''assignee'') else Inr ()) (\<lambda>a.
       if truthy (field (metadata c) ''tags'') \<and>
          js_positive h (opt_prop (field (metadata c) ''tags'') ''length'')
       then renderTags (field (metadata c) ''tags'') else Inr ())))"

definition ColumnRenderer_render :: "host \<Rightarrow> ColumnConfig \<Rightarrow> CardData list \<Rightarrow> thrown + unit" where
  "ColumnRenderer_render h columnConfig cs =
     thenE (mapE (CardRenderer_render h) cs) (\<lambda>done. Inr ())"

section \<open>BoardView (board/BoardView.ts)\<close>

text \<open>What \<^verbatim>\<open>render\<close> leaves in the container: the list of configuration errors, the
  board with its columns, an error line in place of the loading line, or a board that
  was being drawn when a fault ended it, followed by the error line.\<close>

datatype container =
    ConfigurationError "string list"
  | Board "KanbanColumn list"
  | ErrorLine string
  | BrokenBoard string

definition board_query :: "host \<Rightarrow> BoardConfig \<Rightarrow> string \<Rightarrow> string" where
  "board_query h cfg body_text =
     (case extractDataviewQuery h body_text of
        None \<Rightarrow> getDefaultQuery (boardId cfg)
      | Some q \<Rightarrow> if q = [] then getDefaultQuery (boardId cfg) else q)"

text \<open>\<^verbatim>\<open>loadCards\<close>: the materialization, which leaves the cards grouped in
  \<^verbatim>\<open>this.columns\<close>.\<close>

definition BoardView_loadCards ::
    "host \<Rightarrow> dataview_api \<Rightarrow> BoardConfig \<Rightarrow> TFile \<Rightarrow> world \<Rightarrow> world \<times> (thrown + KanbanColumn list)" where
  "BoardView_loadCards h api cfg boardFile w =
     (case vault_read h w boardFile of
        Inl e \<Rightarrow> (w, Inl e)
      | Inr body_text \<Rightarrow>
          (case QueryExecutor_executeQuery h api w (board_query h cfg body_text) (path boardFile) of
             (w1, Inl e) \<Rightarrow> (w1, Inl e)
           | (w1, Inr cs) \<Rightarrow> (w1, Inr (groupCards cfg cs))))"

definition renderBoard :: "host \<Rightarrow> KanbanColumn list \<Rightarrow> thrown + unit" where
  "renderBoard h cols =
     thenE (mapE (\<lambda>column. ColumnRenderer_render h (config column) (cards column)) cols)
       (\<lambda>done. Inr ())"

text \<open>\<^verbatim>\<open>render\<close>: the validation runs outside the \<^verbatim>\<open>try\<close>; the load and the
  drawing of the board run inside it, and the \<^verbatim>\<open>catch\<close> logs the fault and shows it.\<close>

definition render ::
    "host \<Rightarrow> dataview_api \<Rightarrow> BoardConfig \<Rightarrow> TFile \<Rightarrow> world \<Rightarrow> thrown + world \<times> container" where
  "render h api cfg boardFile w =
     (case validateBoardConfig (js_of_BoardConfig cfg) of
        Inl e \<Rightarrow> Inl e
      | Inr v \<Rightarrow>
          if \<not> valid v then Inr (w, ConfigurationError (errors v))
          else
            (case BoardView_loadCards h api cfg boardFile w of
               (w1, Inr cols) \<Rightarrow>
                 (case renderBoard h cols of
                    Inr done \<Rightarrow> Inr (w1, Board cols)
                  | Inl e \<Rightarrow>
                      Inr (w1\<lparr>console := console w1 @ [(''Board render error:'', LoggedFault e)]\<rparr>,
                           BrokenBoard (''Error: '' @ error_message e)))
             | (w1, Inl e) \<Rightarrow>
                 Inr (w1\<lparr>console := console w1 @ [(''Board render error:'', LoggedFault e)]\<rparr>,
                      ErrorLine (''Error: '' @ error_message e))))"

section \<open>Example data\<close>

definition example_card :: "string \<Rightarrow> jsval \<Rightarrow> CardData" where
  "example_card p st =
     \<lparr>card_file = \<lparr>cf_file = \<lparr>path = p, basename = p\<rparr>, cf_path = p, cf_name = p\<rparr>,
      metadata = [(''status'', st)], title = p, content = []\<rparr>"

definition example_column :: "string \<Rightarrow> string \<Rightarrow> ColumnConfig" where
  "example_column nm st =
     \<lparr>name = JStr nm, status = JStr st, color = JUndefined, limit = JUndefined,
      collapsed = JBool False\<rparr>"

definition example_board :: "ColumnConfig list \<Rightarrow> BoardConfig" where
  "example_board cols =
     \<lparr>btype = ''kanban-board'', boardId = JStr ''b1'', columns = cols,
      cardTemplate = JUndefined, autoRefresh = JBool True, refreshInterval = JNum 30\<rparr>"

definition example_host :: host where
  "example_host =
     \<lparr>dataviewjs_match = (\<lambda>s. None), trim = (\<lambda>s. s), strip_frontmatter = (\<lambda>s. s),
      heading_match = (\<lambda>s. None), read_fault = (\<lambda>p. ErrorObj (''no such file: '' @ p)),
      string_positive = (\<lambda>s. False)\<rparr>"

definition example_document :: "obj \<Rightarrow> document" where
  "example_document fm = \<lparr>cache = Some \<lparr>frontmatter = Some fm\<rparr>, body = [], base = ''note''\<rparr>"

definition example_file :: "string \<Rightarrow> TFile" where
  "example_file p = \<lparr>path = p, basename = ''note''\<rparr>"

definition example_world :: world where
  "example_world =
     \<lparr>files =
        [(''board.md'', File (example_document [(''type'', JStr ''kanban-board'')])),
         (''a.md'', File (example_document [(''status'', JStr ''todo''), (''priority'', JStr ''high'')])),
         (''plain.md'', File \<lparr>cache = None, body = [], base = ''note''\<rparr>),
         (''nostatus.md'', File (example_document [(''due'', JStr ''2025-01-01'')]))],
      console = [], dataview_calls = []\<rparr>"

text \<open>The example world after \<^verbatim>\<open>a.md\<close> has been moved to \<open>done\<close>.\<close>

definition example_world_moved :: world where
  "example_world_moved =
     \<lparr>files =
        [(''board.md'', File (example_document [(''type'', JStr ''kanban-board'')])),
         (''a.md'', File (example_document [(''status'', JStr ''done''), (''priority'', JStr ''high''),
                                           (''last-updated'', JStr ''2025-06-01T09:00:00.000Z'')])),
         (''plain.md'', File \<lparr>cache = None, body = [], base = ''note''\<rparr>),
         (''nostatus.md'', File (example_document [(''due'', JStr ''2025-01-01'')]))],
      console = [], dataview_calls = []\<rparr>"

text \<open>An engine that selects \<^verbatim>\<open>a.md\<close>, and one whose evaluation throws.\<close>

definition example_engine :: "string \<Rightarrow> string \<Rightarrow> thrown + jsval" where
  "example_engine query sourcePath =
     Inr (JObj [(''successful'', JBool True),
                (''value'', JObj [(''values'', JArr [JObj [(''file'', JObj [(''path'', JStr ''a.md'')])]])])])"


text \<open>An engine whose list result has \<^verbatim>\<open>a.md\<close> and a \<^verbatim>\<open>null\<close> element.\<close>

definition null_element_engine :: "string \<Rightarrow> string \<Rightarrow> thrown + jsval" where
  "null_element_engine query sourcePath =
     Inr (JObj [(''successful'', JBool True),
                (''value'', JObj [(''type'', JStr ''list''),
                                 (''values'', JArr [JStr ''a.md'', JNull])])])"

section \<open>Properties of groupCards\<close>

lemma length_filter_as_sum:
  "length (filter Q ys) = sum_list (map (\<lambda>y. if Q y then 1 else 0) ys)"
  by (induction ys) simp_all

lemma sum_list_filter_swap:
  "sum_list (map (\<lambda>x. length (filter (P x) ys)) xs) =
   sum_list (map (\<lambda>y. length (filter (\<lambda>x. P x y) xs)) ys)"
proof (induction xs)
  case Nil
  show ?case by simp
next
  case (Cons x xs)
  have "sum_list (map (\<lambda>y. length (filter (\<lambda>x. P x y) (x # xs))) ys) =
        sum_list (map (\<lambda>y. (if P x y then 1 else 0) + length (filter (\<lambda>x. P x y) xs)) ys)"
    by (rule arg_cong [where f = sum_list], rule map_cong) simp_all
  also have "\<dots> = sum_list (map (\<lambda>y. if P x y then 1 else 0) ys) +
                  sum_list (map (\<lambda>y. length (filter (\<lambda>x. P x y) xs)) ys)"
    by (simp add: sum_list_addf)
  finally show ?case
    using Cons.IH by (simp add: length_filter_as_sum [symmetric])
qed

lemma distinct_filter_le_one:
  "distinct (map f xs) \<Longrightarrow> length (filter (\<lambda>x. f x = v) xs) \<le> Suc 0"
proof (induction xs)
  case Nil
  show ?case by simp
next
  case (Cons x xs)
  show ?case
  proof (cases "f x = v")
    case True
    with Cons.prems have "\<forall>y \<in> set xs. f y \<noteq> v"
      by (metis distinct.simps(2) image_eqI list.simps(9) set_map)
    then have "filter (\<lambda>x. f x = v) xs = []" by (simp add: filter_empty_conv)
    with True show ?thesis by simp
  next
    case False
    with Cons show ?thesis by simp
  qed
qed

lemma strict_eq_imp_eq: "strict_eq a b \<Longrightarrow> a = b"
  by (induction a b rule: strict_eq.induct) simp_all

lemma groupCards_length: "length (groupCards cfg cs) = length (columns cfg)"
  by (simp add: groupCards_def)

lemma groupCards_config: "map config (groupCards cfg cs) = columns cfg"
  by (simp add: groupCards_def comp_def)

lemma groupCards_member:
  "col \<in> set (groupCards cfg cs) \<Longrightarrow>
   (c \<in> set (cards col)) = (c \<in> set cs \<and> strict_eq (card_status c) (status (config col)))"
  by (auto simp: groupCards_def)

lemma groupCards_columns_holding:
  "length (filter (\<lambda>col. c \<in> set (cards col)) (groupCards cfg cs)) =
   (if c \<in> set cs
    then length (filter (\<lambda>cc. strict_eq (card_status c) (status cc)) (columns cfg))
    else 0)"
  by (simp add: groupCards_def filter_map comp_def)

lemma groupCards_total:
  "sum_list (map (\<lambda>col. length (cards col)) (groupCards cfg cs)) =
   sum_list (map (\<lambda>c. length (filter (\<lambda>cc. strict_eq (card_status c) (status cc)) (columns cfg))) cs)"
  using sum_list_filter_swap [of "\<lambda>cc c. strict_eq (card_status c) (status cc)" cs "columns cfg"]
  by (simp add: groupCards_def comp_def)

text \<open>A card of status \<open>todo\<close> on a board with two columns of status \<open>todo\<close> is in both.\<close>

theorem groupCards_duplicate_status_counterexample:
  "example_card ''a.md'' (JStr ''todo'') \<in>
     set (cards (groupCards (example_board [example_column ''First'' ''todo'',
                                            example_column ''Second'' ''todo''])
                   [example_card ''a.md'' (JStr ''todo'')] ! 0)) \<and>
   example_card ''a.md'' (JStr ''todo'') \<in>
     set (cards (groupCards (example_board [example_column ''First'' ''todo'',
                                            example_column ''Second'' ''todo''])
                   [example_card ''a.md'' (JStr ''todo'')] ! 1))"
  by (simp add: groupCards_def example_board_def example_column_def example_card_def
      card_status_def field_def)

text \<open>
  Claim C1, as the code has it. \<^verbatim>\<open>groupCards\<close> builds one column per ColumnSpec, in
  declared order, and each column holds every loaded card whose status is strictly equal
  to the column's status. A card is therefore in every column of its status, not only in
  the first one; it is in at most one column when the declared statuses are pairwise
  distinct. The first theorem shows a card of status \<open>todo\<close> in both of two columns of
  status \<open>todo\<close>.
\<close>

theorem groupCards_every_matching_column:
  "map config (groupCards cfg cs) = columns cfg \<and>
   (\<forall>col \<in> set (groupCards cfg cs). \<forall>c.
      c \<in> set (cards col) \<longleftrightarrow> c \<in> set cs \<and> strict_eq (card_status c) (status (config col))) \<and>
   (distinct (map status (columns cfg)) \<longrightarrow>
      (\<forall>c. length (filter (\<lambda>col. c \<in> set (cards col)) (groupCards cfg cs)) \<le> 1))"
proof (intro conjI ballI allI impI)
  show "map config (groupCards cfg cs) = columns cfg" by (rule groupCards_config)
next
  fix col c
  assume "col \<in> set (groupCards cfg cs)"
  then show "c \<in> set (cards col) \<longleftrightarrow>
             c \<in> set cs \<and> strict_eq (card_status c) (status (config col))"
    by (rule groupCards_member)
next
  fix c
  assume d: "distinct (map status (columns cfg))"
  have "length (filter (\<lambda>cc. strict_eq (card_status c) (status cc)) (columns cfg)) \<le>
        length (filter (\<lambda>cc. status cc = card_status c) (columns cfg))"
  proof -
    have "filter (\<lambda>cc. strict_eq (card_status c) (status cc)) (columns cfg) =
          filter (\<lambda>cc. strict_eq (card_status c) (status cc))
            (filter (\<lambda>cc. status cc = card_status c) (columns cfg))"
      by (simp add: conj_commute) (rule filter_cong, auto dest: strict_eq_imp_eq)
    then show ?thesis by (metis length_filter_le)
  qed
  also have "\<dots> \<le> Suc 0" using d by (rule distinct_filter_le_one)
  finally show "length (filter (\<lambda>col. c \<in> set (cards col)) (groupCards cfg cs)) \<le> 1"
    by (simp add: groupCards_columns_holding)
qed

theorem groupCards_every_matching_column_witness:
  "\<lparr>config = example_column ''Todo'' ''todo'', cards = [example_card ''a.md'' (JStr ''todo'')]\<rparr>
     \<in> set (groupCards (example_board [example_column ''Todo'' ''todo'',
                                       example_column ''Done'' ''done''])
              [example_card ''a.md'' (JStr ''todo'')]) \<and>
   distinct (map status (columns (example_board [example_column ''Todo'' ''todo'',
                                                 example_column ''Done'' ''done'']))) \<and>
   length (filter (\<lambda>col. example_card ''a.md'' (JStr ''todo'') \<in> set (cards col))
             (groupCards (example_board [example_column ''Todo'' ''todo'',
                                         example_column ''Done'' ''done''])
                [example_card ''a.md'' (JStr ''todo'')])) \<le> 1"
  using groupCards_every_matching_column
          [of "example_board [example_column ''Todo'' ''todo'', example_column ''Done'' ''done'']"
              "[example_card ''a.md'' (JStr ''todo'')]"]
  by (simp add: groupCards_def example_board_def example_column_def example_card_def
      card_status_def field_def)

text \<open>
  Claim C2. When every loaded card's status equals the status of exactly one declared
  column, \<^verbatim>\<open>groupCards\<close> yields exactly one column per ColumnSpec, in declared order,
  the column sizes add up to the number of cards with a matching status, and every card
  is held by exactly one column. (The validity of the configuration is not needed.)
\<close>

theorem groupCards_partition:
  assumes "\<forall>c \<in> set cs.
             length (filter (\<lambda>col. strict_eq (card_status c) (status col)) (columns cfg)) = 1"
  shows "length (groupCards cfg cs) = length (columns cfg) \<and>
         map config (groupCards cfg cs) = columns cfg \<and>
         sum_list (map (\<lambda>col. length (cards col)) (groupCards cfg cs)) =
           length (filter (\<lambda>c. \<exists>col \<in> set (columns cfg). strict_eq (card_status c) (status col)) cs) \<and>
         (\<forall>c \<in> set cs.
            length (filter (\<lambda>col. c \<in> set (cards col)) (groupCards cfg cs)) = 1)"
proof (intro conjI ballI)
  show "length (groupCards cfg cs) = length (columns cfg)" by (rule groupCards_length)
  show "map config (groupCards cfg cs) = columns cfg" by (rule groupCards_config)
next
  have one: "map (\<lambda>c. length (filter (\<lambda>cc. strict_eq (card_status c) (status cc)) (columns cfg))) cs =
             map (\<lambda>c. 1) cs"
    using assms by (intro map_cong) simp_all
  have all_match: "filter (\<lambda>c. \<exists>col \<in> set (columns cfg). strict_eq (card_status c) (status col)) cs = cs"
  proof (rule filter_True, rule ballI)
    fix c assume "c \<in> set cs"
    with assms have "filter (\<lambda>col. strict_eq (card_status c) (status col)) (columns cfg) \<noteq> []"
      by fastforce
    then show "\<exists>col \<in> set (columns cfg). strict_eq (card_status c) (status col)"
      by (simp add: filter_empty_conv)
  qed
  show "sum_list (map (\<lambda>col. length (cards col)) (groupCards cfg cs)) =
        length (filter (\<lambda>c. \<exists>col \<in> set (columns cfg). strict_eq (card_status c) (status col)) cs)"
    by (simp add: groupCards_total one all_match sum_list_triv)
next
  fix c assume "c \<in> set cs"
  with assms show "length (filter (\<lambda>col. c \<in> set (cards col)) (groupCards cfg cs)) = 1"
    by (simp add: groupCards_columns_holding)
qed

theorem groupCards_partition_witness:
  "length (filter (\<lambda>col. strict_eq (card_status (example_card ''a.md'' (JStr ''todo''))) (status col))
             (columns (example_board [example_column ''Todo'' ''todo'',
                                      example_column ''Done'' ''done'']))) = 1 \<and>
   length (filter (\<lambda>col. strict_eq (card_status (example_card ''b.md'' (JStr ''done''))) (status col))
             (columns (example_board [example_column ''Todo'' ''todo'',
                                      example_column ''Done'' ''done'']))) = 1 \<and>
   map (\<lambda>col. length (cards col))
     (groupCards (example_board [example_column ''Todo'' ''todo'', example_column ''Done'' ''done''])
        [example_card ''a.md'' (JStr ''todo''), example_card ''b.md'' (JStr ''done''),
         example_card ''a.md'' (JStr ''todo'')]) = [2, 1] \<and>
   sum_list (map (\<lambda>col. length (cards col))
     (groupCards (example_board [example_column ''Todo'' ''todo'', example_column ''Done'' ''done''])
        [example_card ''a.md'' (JStr ''todo''), example_card ''b.md'' (JStr ''done''),
         example_card ''a.md'' (JStr ''todo'')])) = 3"
proof -
  have a: "length (filter (\<lambda>col. strict_eq (card_status (example_card ''a.md'' (JStr ''todo''))) (status col))
             (columns (example_board [example_column ''Todo'' ''todo'',
                                      example_column ''Done'' ''done'']))) = 1"
    by (simp add: example_board_def example_column_def example_card_def card_status_def field_def)
  have b: "length (filter (\<lambda>col. strict_eq (card_status (example_card ''b.md'' (JStr ''done''))) (status col))
             (columns (example_board [example_column ''Todo'' ''todo'',
                                      example_column ''Done'' ''done'']))) = 1"
    by (simp add: example_board_def example_column_def example_card_def card_status_def field_def)
  have h: "\<forall>c \<in> set [example_card ''a.md'' (JStr ''todo''), example_card ''b.md'' (JStr ''done''),
               example_card ''a.md'' (JStr ''todo'')].
      length (filter (\<lambda>col. strict_eq (card_status c) (status col))
                (columns (example_board [example_column ''Todo'' ''todo'',
                                         example_column ''Done'' ''done'']))) = 1"
    using a b by simp
  have counts: "map (\<lambda>col. length (cards col))
     (groupCards (example_board [example_column ''Todo'' ''todo'', example_column ''Done'' ''done''])
        [example_card ''a.md'' (JStr ''todo''), example_card ''b.md'' (JStr ''done''),
         example_card ''a.md'' (JStr ''todo'')]) = [2, 1]"
    by (simp add: groupCards_def example_board_def example_column_def example_card_def
        card_status_def field_def)
  from groupCards_partition [OF h] a b counts show ?thesis by simp
qed

section \<open>Properties of the validator and of render\<close>

lemma get_prop_js_of_ColumnConfig:
  "get_prop (js_of_ColumnConfig col) ''name'' = Inr (name col)"
  "get_prop (js_of_ColumnConfig col) ''status'' = Inr (status col)"
  by (simp_all add: get_prop_def js_of_ColumnConfig_def field_def)

lemma get_prop_columns_js_of_BoardConfig:
  "get_prop (js_of_BoardConfig cfg) ''columns'' = Inr (JArr (map js_of_ColumnConfig (columns cfg)))"
  by (simp add: get_prop_def js_of_BoardConfig_def field_def)

lemma forEach_column_all_named:
  "\<forall>col \<in> set cols. truthy (opt_prop col ''name'') \<and> truthy (opt_prop col ''status'') \<Longrightarrow>
   forEach_column errs cols index = Inr errs"
proof (induction cols arbitrary: errs index)
  case Nil
  show ?case by simp
next
  case (Cons col cols)
  from Cons.prems have t: "truthy (opt_prop col ''name'')" "truthy (opt_prop col ''status'')"
    by simp_all
  then have "\<not> nullish col" by (cases col) simp_all
  with t Cons show ?case by (simp add: get_prop_def)
qed

lemma validateBoardConfig_no_columns:
  "get_prop cfg ''columns'' = Inr (JArr []) \<Longrightarrow>
   validateBoardConfig cfg = Inr \<lparr>valid = False, errors = [''Board must have at least one column'']\<rparr>"
  by (simp add: validateBoardConfig_def thenE_def columns_forEach_def)

lemma validateBoardConfig_boardId:
  "validateBoardConfig (js_of_BoardConfig (cfg\<lparr>boardId := b\<rparr>)) =
   validateBoardConfig (js_of_BoardConfig cfg)"
  by (simp add: validateBoardConfig_def get_prop_columns_js_of_BoardConfig)

lemma DataviewHelper_executeQuery_calls:
  "dataview_calls (fst (DataviewHelper_executeQuery (Some run) w query sourcePath)) =
   dataview_calls w @ [(query, sourcePath)]"
  by (simp add: DataviewHelper_executeQuery_def Let_def split: sum.splits)

text \<open>
  Claim C4. For a board configuration with no columns the validator reports the one
  message \<open>Board must have at least one column\<close> (which contains the phrase of the
  claim), \<^verbatim>\<open>render\<close> shows the error list and returns before any load: the world is
  unchanged, so the record of calls to the query engine is what it was.
\<close>

theorem render_no_columns_short_circuit:
  assumes "columns cfg = []"
  shows "validateBoardConfig (js_of_BoardConfig cfg) =
           Inr \<lparr>valid = False, errors = [''Board must have at least one column'']\<rparr> \<and>
         sublist ''must have at least one column'' ''Board must have at least one column'' \<and>
         render h api cfg boardFile w =
           Inr (w, ConfigurationError [''Board must have at least one column'']) \<and>
         (\<forall>w' shown. render h api cfg boardFile w = Inr (w', shown) \<longrightarrow>
            dataview_calls w' = dataview_calls w)"
proof -
  have v: "validateBoardConfig (js_of_BoardConfig cfg) =
           Inr \<lparr>valid = False, errors = [''Board must have at least one column'']\<rparr>"
    using assms by (intro validateBoardConfig_no_columns) (simp add: get_prop_columns_js_of_BoardConfig)
  have "''Board must have at least one column'' = ''Board '' @ ''must have at least one column'' @ []"
    by simp
  then have s: "sublist ''must have at least one column'' ''Board must have at least one column''"
    by (metis sublist_appendI)
  have r: "render h api cfg boardFile w =
           Inr (w, ConfigurationError [''Board must have at least one column''])"
    by (simp add: render_def v)
  from v s r show ?thesis by simp
qed

theorem render_no_columns_short_circuit_witness:
  "columns (example_board []) = [] \<and>
   render example_host (Some example_engine) (example_board []) (example_file ''board.md'')
     example_world =
     Inr (example_world, ConfigurationError [''Board must have at least one column'']) \<and>
   dataview_calls example_world = []"
  using render_no_columns_short_circuit
          [of "example_board []" example_host "Some example_engine" "example_file ''board.md''"
              example_world]
  by (simp add: example_board_def example_world_def)

text \<open>
  Claim C10. The validator looks at the columns only: a configuration whose
  \<^verbatim>\<open>columns\<close> is a non-empty array of entries with truthy \<^verbatim>\<open>name\<close> and
  \<^verbatim>\<open>status\<close> is valid with no error, whatever else it holds, so also with
  \<^verbatim>\<open>boardId\<close> empty or absent. For a typed configuration neither the validator's
  result nor the grouping depends on \<^verbatim>\<open>boardId\<close>.
\<close>

theorem validateBoardConfig_columns_only:
  assumes "get_prop cfg ''columns'' = Inr (JArr cols)"
      and "cols \<noteq> []"
      and "\<forall>col \<in> set cols. truthy (opt_prop col ''name'') \<and> truthy (opt_prop col ''status'')"
  shows "validateBoardConfig cfg = Inr \<lparr>valid = True, errors = []\<rparr> \<and>
         validateBoardConfig (js_of_BoardConfig (bc\<lparr>boardId := b\<rparr>)) =
           validateBoardConfig (js_of_BoardConfig bc) \<and>
         groupCards (bc\<lparr>boardId := b\<rparr>) cs = groupCards bc cs"
  using assms
  by (simp add: validateBoardConfig_def thenE_def columns_forEach_def forEach_column_all_named
      get_prop_columns_js_of_BoardConfig groupCards_def)

theorem validateBoardConfig_columns_only_witness:
  "get_prop (JObj [(''columns'', JArr [JObj [(''name'', JStr ''Todo''), (''status'', JStr ''todo'')]])])
     ''columns'' = Inr (JArr [JObj [(''name'', JStr ''Todo''), (''status'', JStr ''todo'')]]) \<and>
   truthy (opt_prop (JObj [(''name'', JStr ''Todo''), (''status'', JStr ''todo'')]) ''name'') \<and>
   truthy (opt_prop (JObj [(''name'', JStr ''Todo''), (''status'', JStr ''todo'')]) ''status'') \<and>
   validateBoardConfig
     (JObj [(''columns'', JArr [JObj [(''name'', JStr ''Todo''), (''status'', JStr ''todo'')]])]) =
     Inr \<lparr>valid = True, errors = []\<rparr> \<and>
   validateBoardConfig (js_of_BoardConfig (example_board [example_column ''Todo'' ''todo''])) =
     Inr \<lparr>valid = True, errors = []\<rparr> \<and>
   validateBoardConfig
     (js_of_BoardConfig ((example_board [example_column ''Todo'' ''todo''])\<lparr>boardId := JStr []\<rparr>)) =
     Inr \<lparr>valid = True, errors = []\<rparr>"
proof -
  let ?col = "JObj [(''name'', JStr ''Todo''), (''status'', JStr ''todo'')]"
  let ?cfg = "JObj [(''columns'', JArr [?col])]"
  have g: "get_prop ?cfg ''columns'' = Inr (JArr [?col])"
    by (simp add: get_prop_def field_def)
  have t: "truthy (opt_prop ?col ''name'')" "truthy (opt_prop ?col ''status'')"
    by (simp_all add: field_def)
  then have a: "\<forall>col \<in> set [?col]. truthy (opt_prop col ''name'') \<and> truthy (opt_prop col ''status'')"
    by simp
  have typed: "validateBoardConfig (js_of_BoardConfig (example_board [example_column ''Todo'' ''todo''])) =
     Inr \<lparr>valid = True, errors = []\<rparr>"
    by (simp add: validateBoardConfig_def thenE_def columns_forEach_def get_prop_def field_def
        js_of_BoardConfig_def js_of_ColumnConfig_def example_board_def example_column_def)
  from validateBoardConfig_columns_only
         [OF g _ a, where bc = "example_board [example_column ''Todo'' ''todo'']" and b = "JStr []"]
       g t typed
  show ?thesis by simp
qed

section \<open>Properties of the card move\<close>

lemma status_callback_lookup:
  "map_of (status_callback newStatus now fm) =
   (map_of fm)(''status'' \<mapsto> JStr newStatus, ''last-updated'' \<mapsto> JStr now)"
  by (simp add: status_callback_def update_conv')

lemma processFrontMatter_files:
  assumes "processFrontMatter h w f fn = Inr w'"
  obtains d where "map_of (files w) (path f) = Some (File d)"
    and "\<And>p. map_of (files w') p =
           (if p = path f
            then Some (File (d\<lparr>cache := Some \<lparr>frontmatter = Some (fn (current_frontmatter w f))\<rparr>\<rparr>))
            else map_of (files w) p)"
    and "console w' = console w" and "dataview_calls w' = dataview_calls w"
proof -
  from assms obtain d where d: "map_of (files w) (path f) = Some (File d)"
    by (auto simp: processFrontMatter_def split: option.splits entry.splits)
  with assms have w': "w' = w\<lparr>files := AList.update (path f)
      (File (d\<lparr>cache := Some \<lparr>frontmatter = Some (fn (current_frontmatter w f))\<rparr>\<rparr>)) (files w)\<rparr>"
    by (simp add: processFrontMatter_def)
  show thesis
    by (rule that [OF d]) (simp_all add: w' update_conv')
qed

lemma getFileCache_after_processFrontMatter:
  assumes "processFrontMatter h w f fn = Inr w'"
  shows "getFileCache w' g =
           (if path g = path f then Some \<lparr>frontmatter = Some (fn (current_frontmatter w f))\<rparr>
            else getFileCache w g)"
  using assms by (elim processFrontMatter_files) (simp add: getFileCache_def)

lemma vault_read_after_processFrontMatter:
  assumes "processFrontMatter h w f fn = Inr w'"
  shows "vault_read h w' g = vault_read h w g"
  using assms by (elim processFrontMatter_files) (simp add: vault_read_def)

lemma getAbstractFileByPath_after_processFrontMatter:
  assumes "processFrontMatter h w f fn = Inr w'"
  shows "getAbstractFileByPath w' p = getAbstractFileByPath w p"
  using assms by (elim processFrontMatter_files) (simp add: getAbstractFileByPath_def)

text \<open>
  Claim C5. A successful move leaves the document's metadata block with
  \<^verbatim>\<open>status\<close> equal to the new status and \<^verbatim>\<open>last-updated\<close> equal to the current
  time, and with every other key bound exactly as before (present with the same value,
  or absent). The metadata of every other document and the text of every document are
  untouched.
\<close>

theorem updateStatus_touches_two_fields:
  assumes "updateStatus h w f newStatus now = Inr w'"
  shows "field (current_frontmatter w' f) ''status'' = JStr newStatus \<and>
         field (current_frontmatter w' f) ''last-updated'' = JStr now \<and>
         (\<forall>k. k \<noteq> ''status'' \<longrightarrow> k \<noteq> ''last-updated'' \<longrightarrow>
            map_of (current_frontmatter w' f) k = map_of (current_frontmatter w f) k) \<and>
         (\<forall>g. path g \<noteq> path f \<longrightarrow> getFileCache w' g = getFileCache w g) \<and>
         (\<forall>g. vault_read h w' g = vault_read h w g)"
proof -
  from assms have p: "processFrontMatter h w f (status_callback newStatus now) = Inr w'"
    by (simp add: updateStatus_def updateCardStatus_def)
  have fm: "current_frontmatter w' f = status_callback newStatus now (current_frontmatter w f)"
    by (simp add: current_frontmatter_def [of w'] getFileCache_after_processFrontMatter [OF p])
  show ?thesis
    by (simp add: fm field_def status_callback_lookup getFileCache_after_processFrontMatter [OF p]
        vault_read_after_processFrontMatter [OF p])
qed

theorem updateStatus_touches_two_fields_witness:
  "updateStatus example_host example_world (example_file ''a.md'') ''done''
     ''2025-06-01T09:00:00.000Z'' = Inr example_world_moved \<and>
   field (current_frontmatter example_world_moved (example_file ''a.md'')) ''status'' = JStr ''done'' \<and>
   map_of (current_frontmatter example_world_moved (example_file ''a.md'')) ''priority'' =
     Some (JStr ''high'') \<and>
   map_of (current_frontmatter example_world (example_file ''a.md'')) ''priority'' =
     Some (JStr ''high'')"
proof -
  have m: "updateStatus example_host example_world (example_file ''a.md'') ''done''
     ''2025-06-01T09:00:00.000Z'' = Inr example_world_moved"
    by (simp add: updateStatus_def updateCardStatus_def processFrontMatter_def example_world_def
        example_world_moved_def example_file_def example_document_def status_callback_def
        current_frontmatter_def getFileCache_def)
  have b: "map_of (current_frontmatter example_world (example_file ''a.md'')) ''priority'' =
     Some (JStr ''high'')"
    by (simp add: current_frontmatter_def getFileCache_def example_world_def example_file_def
        example_document_def)
  from updateStatus_touches_two_fields [OF m] m b show ?thesis by simp
qed

section \<open>Properties of the card loader\<close>

lemma getCardMetadata_None_iff:
  "getCardMetadata w f = None \<longleftrightarrow> (\<forall>c. getFileCache w f = Some c \<longrightarrow> frontmatter c = None)"
  by (auto simp: getCardMetadata_def split: option.splits)

lemma getCardMetadata_status:
  assumes "getFileCache w f = Some c" and "frontmatter c = Some fm"
  obtains md where "getCardMetadata w f = Some md" and "field md ''status'' = field fm ''status''"
  using assms
  by (auto simp: getCardMetadata_def spread_def field_def merge_conv' map_add_def
      split: option.splits)

lemma vault_read_cached:
  assumes "getFileCache w f = Some c"
  obtains b where "vault_read h w f = Inr b"
  using assms
  by (auto simp: getFileCache_def vault_read_def split: option.splits entry.splits)

lemma loadCard_no_metadata:
  "getCardMetadata w f = None \<Longrightarrow> loadCard h w f = Inr None"
  by (simp add: loadCard_def)

lemma loadCard_with_metadata:
  assumes "getFileCache w f = Some c" and "frontmatter c = Some fm"
  obtains cd where "loadCard h w f = Inr (Some cd)" and "cf_path (card_file cd) = path f"
    and "card_status cd = field fm ''status''"
proof -
  from assms obtain md where md: "getCardMetadata w f = Some md"
    "field md ''status'' = field fm ''status''"
    by (rule getCardMetadata_status)
  from assms(1) obtain b where b: "vault_read h w f = Inr b" by (rule vault_read_cached)
  show thesis
    by (rule that [of "\<lparr>card_file = \<lparr>cf_file = f, cf_path = path f, cf_name = basename f\<rparr>,
          metadata = md,
          title = (case extractTitle h b of None \<Rightarrow> basename f
                   | Some s \<Rightarrow> if s \<noteq> [] then s else basename f),
          content = b\<rparr>"])
       (simp_all add: loadCard_def md b thenE_def card_status_def)
qed

lemma loadCard_never_throws: "loadCard h w f \<noteq> Inl e"
proof (cases "getCardMetadata w f")
  case None
  then show ?thesis by (simp add: loadCard_no_metadata)
next
  case (Some md)
  then obtain c fm where "getFileCache w f = Some c" "frontmatter c = Some fm"
    by (auto simp: getCardMetadata_def split: option.splits)
  then obtain cd where "loadCard h w f = Inr (Some cd)" by (rule loadCard_with_metadata)
  then show ?thesis by simp
qed

lemma loadCards_in_order:
  "CardManager_loadCards h w fs =
   Inr (List.map_filter (\<lambda>f. case loadCard h w f of Inr r \<Rightarrow> r | Inl e \<Rightarrow> None) fs)"
proof (induction fs)
  case Nil
  show ?case by (simp add: List.map_filter_simps)
next
  case (Cons f fs)
  obtain r where "loadCard h w f = Inr r"
    using loadCard_never_throws [of h w f] by (cases "loadCard h w f") auto
  with Cons show ?case by (simp add: List.map_filter_simps split: option.splits)
qed

text \<open>
  Claim C8. \<^verbatim>\<open>loadCard\<close> returns \<^verbatim>\<open>null\<close> exactly when the document has no
  metadata block (the cache has no entry for it, or the entry has no frontmatter), and
  it never throws. A document with a metadata block is loaded as a card whose status is
  the block's \<^verbatim>\<open>status\<close>, which is \<^verbatim>\<open>undefined\<close> when the block has no such key.
  \<^verbatim>\<open>loadCards\<close> returns the cards that loaded, in the order of the input, leaving
  out the \<^verbatim>\<open>null\<close> results.
\<close>

theorem loadCard_null_iff_no_metadata:
  "(loadCard h w f = Inr None \<longleftrightarrow> (\<forall>c. getFileCache w f = Some c \<longrightarrow> frontmatter c = None)) \<and>
   (\<forall>e. loadCard h w f \<noteq> Inl e) \<and>
   (\<forall>c fm. getFileCache w f = Some c \<longrightarrow> frontmatter c = Some fm \<longrightarrow>
      (\<exists>cd. loadCard h w f = Inr (Some cd) \<and> cf_path (card_file cd) = path f \<and>
            card_status cd = field fm ''status'' \<and>
            (map_of fm ''status'' = None \<longrightarrow> card_status cd = JUndefined))) \<and>
   CardManager_loadCards h w fs =
     Inr (List.map_filter (\<lambda>f. case loadCard h w f of Inr r \<Rightarrow> r | Inl e \<Rightarrow> None) fs)"
proof (intro conjI allI impI)
  show "loadCard h w f = Inr None \<longleftrightarrow> (\<forall>c. getFileCache w f = Some c \<longrightarrow> frontmatter c = None)"
  proof
    assume n: "loadCard h w f = Inr None"
    show "\<forall>c. getFileCache w f = Some c \<longrightarrow> frontmatter c = None"
    proof (intro allI impI, rule ccontr)
      fix c assume c: "getFileCache w f = Some c" and "frontmatter c \<noteq> None"
      then obtain fm where "frontmatter c = Some fm" by auto
      with c obtain cd where "loadCard h w f = Inr (Some cd)" by (rule loadCard_with_metadata)
      with n show False by simp
    qed
  next
    assume "\<forall>c. getFileCache w f = Some c \<longrightarrow> frontmatter c = None"
    then show "loadCard h w f = Inr None"
      by (simp add: loadCard_no_metadata getCardMetadata_None_iff)
  qed
next
  fix e show "loadCard h w f \<noteq> Inl e" by (rule loadCard_never_throws)
next
  fix c fm assume "getFileCache w f = Some c" and "frontmatter c = Some fm"
  then obtain cd where "loadCard h w f = Inr (Some cd)" "cf_path (card_file cd) = path f"
    "card_status cd = field fm ''status''"
    by (rule loadCard_with_metadata)
  then show "\<exists>cd. loadCard h w f = Inr (Some cd) \<and> cf_path (card_file cd) = path f \<and>
            card_status cd = field fm ''status'' \<and>
            (map_of fm ''status'' = None \<longrightarrow> card_status cd = JUndefined)"
    by (auto simp: field_def)
next
  show "CardManager_loadCards h w fs =
     Inr (List.map_filter (\<lambda>f. case loadCard h w f of Inr r \<Rightarrow> r | Inl e \<Rightarrow> None) fs)"
    by (rule loadCards_in_order)
qed

theorem loadCard_null_iff_no_metadata_witness:
  "loadCard example_host example_world (example_file ''plain.md'') = Inr None \<and>
   getFileCache example_world (example_file ''nostatus.md'') =
     Some \<lparr>frontmatter = Some [(''due'', JStr ''2025-01-01'')]\<rparr> \<and>
   map_of [(''due'', JStr ''2025-01-01'')] ''status'' = None \<and>
   (\<exists>cd. loadCard example_host example_world (example_file ''nostatus.md'') = Inr (Some cd) \<and>
         card_status cd = JUndefined) \<and>
   (case CardManager_loadCards example_host example_world
           [example_file ''a.md'', example_file ''plain.md'', example_file ''nostatus.md''] of
      Inr cs \<Rightarrow> map (\<lambda>cd. cf_path (card_file cd)) cs = [''a.md'', ''nostatus.md'']
    | Inl e \<Rightarrow> False)"
proof -
  have p: "getFileCache example_world (example_file ''plain.md'') = None"
    by (simp add: getFileCache_def example_world_def example_file_def)
  have n: "getFileCache example_world (example_file ''nostatus.md'') =
     Some \<lparr>frontmatter = Some [(''due'', JStr ''2025-01-01'')]\<rparr>"
    by (simp add: getFileCache_def example_world_def example_file_def example_document_def)
  have a: "getFileCache example_world (example_file ''a.md'') =
     Some \<lparr>frontmatter = Some [(''status'', JStr ''todo''), (''priority'', JStr ''high'')]\<rparr>"
    by (simp add: getFileCache_def example_world_def example_file_def example_document_def)
  note t = loadCard_null_iff_no_metadata [of example_host example_world]
  from t [of "example_file ''plain.md''"] p
  have 1: "loadCard example_host example_world (example_file ''plain.md'') = Inr None" by simp
  from t [of "example_file ''nostatus.md''"] n
  obtain cd where 2: "loadCard example_host example_world (example_file ''nostatus.md'') = Inr (Some cd)"
    "cf_path (card_file cd) = path (example_file ''nostatus.md'')" "card_status cd = JUndefined"
    by (auto simp: field_def)
  from t [of "example_file ''a.md''"] a
  obtain ca where 3: "loadCard example_host example_world (example_file ''a.md'') = Inr (Some ca)"
    "cf_path (card_file ca) = path (example_file ''a.md'')"
    by auto
  from t [of _ "[example_file ''a.md'', example_file ''plain.md'', example_file ''nostatus.md'']"]
  have 4: "CardManager_loadCards example_host example_world
           [example_file ''a.md'', example_file ''plain.md'', example_file ''nostatus.md''] =
        Inr [ca, cd]"
    by (simp add: 1 2 3 List.map_filter_simps)
  show ?thesis using 1 n 2 3 4 by (simp add: example_file_def)
qed

section \<open>Properties of parsePageResults\<close>

lemma parsePageResults_falsy: "\<not> truthy result \<Longrightarrow> parsePageResults result = Inr []"
  by (simp add: parsePageResults.simps)

lemma parsePageResults_array:
  "parsePageResults (JArr items) = thenE (mapE page_path items) (\<lambda>ps. Inr (filter truthy ps))"
  by (simp add: parsePageResults.simps)

lemma parsePageResults_wrapper:
  "truthy result \<Longrightarrow> \<not> isArray result \<Longrightarrow> truthy (opt_prop result ''values'') \<Longrightarrow>
   parsePageResults result = parsePageResults (opt_prop result ''values'')"
  by (subst parsePageResults.simps) simp

lemma parsePageResults_unrecognised:
  "\<not> isArray result \<Longrightarrow> \<not> truthy (opt_prop result ''values'') \<Longrightarrow>
   parsePageResults result = Inr []"
  by (subst parsePageResults.simps) simp

lemma mapE_total:
  "\<forall>x \<in> set xs. f x = Inr (g x) \<Longrightarrow> mapE f xs = Inr (map g xs)"
  by (induction xs) simp_all

lemma mapE_throws:
  "x \<in> set xs \<Longrightarrow> \<forall>y \<in> set xs. (\<exists>e. f y = Inl e) \<or> (\<exists>z. f y = Inr z) \<Longrightarrow>
   f x = Inl e \<Longrightarrow> \<exists>e'. mapE f xs = Inl e'"
  by (induction xs) (auto split: sum.splits)

text \<open>The identifier \<^verbatim>\<open>parsePageResults\<close> resolves for an element that is neither
  \<^verbatim>\<open>null\<close> nor \<^verbatim>\<open>undefined\<close>; \<^verbatim>\<open>null\<close> when there is none.\<close>

lemma page_path_resolved:
  "\<not> nullish item \<Longrightarrow>
   page_path item =
     Inr (case item of
            JStr s \<Rightarrow> item
          | _ \<Rightarrow> if truthy (opt_prop (opt_prop item ''file'') ''path'')
                 then opt_prop (opt_prop item ''file'') ''path''
                 else if truthy (opt_prop item ''path'') then opt_prop item ''path'' else JNull)"
  by (cases item) (simp_all add: page_path_def get_prop_def thenE_def)

lemma page_path_nullish:
  "nullish item \<Longrightarrow> page_path item = Inl (TypeError ''Cannot read properties of null or undefined: file'')"
  by (cases item) (simp_all add: page_path_def get_prop_def thenE_def)

lemma parsePageResults_strings:
  "\<forall>s \<in> set ss. s \<noteq> [] \<Longrightarrow> parsePageResults (JArr (map JStr ss)) = Inr (map JStr ss)"
proof -
  assume ne: "\<forall>s \<in> set ss. s \<noteq> []"
  have "mapE page_path (map JStr ss) = Inr (map (\<lambda>x. x) (map JStr ss))"
    by (rule mapE_total) (auto simp: page_path_def)
  moreover from ne have "filter truthy (map JStr ss) = map JStr ss"
    by (induction ss) simp_all
  ultimately show ?thesis by (simp add: parsePageResults_array thenE_def)
qed

lemma parsePageResults_no_nullish:
  assumes "\<forall>item \<in> set items. \<not> nullish item"
  shows "parsePageResults (JArr items) =
         Inr (filter truthy
               (map (\<lambda>item. case item of
                        JStr s \<Rightarrow> item
                      | _ \<Rightarrow> if truthy (opt_prop (opt_prop item ''file'') ''path'')
                             then opt_prop (opt_prop item ''file'') ''path''
                             else if truthy (opt_prop item ''path'') then opt_prop item ''path''
                             else JNull) items))"
proof -
  have "mapE page_path items =
        Inr (map (\<lambda>item. case item of
                        JStr s \<Rightarrow> item
                      | _ \<Rightarrow> if truthy (opt_prop (opt_prop item ''file'') ''path'')
                             then opt_prop (opt_prop item ''file'') ''path''
                             else if truthy (opt_prop item ''path'') then opt_prop item ''path''
                             else JNull) items)"
    using assms by (intro mapE_total) (simp add: page_path_resolved)
  then show ?thesis by (simp add: parsePageResults_array thenE_def)
qed

lemma parsePageResults_nullish_item:
  assumes "item \<in> set items" and "nullish item"
  shows "\<exists>e. parsePageResults (JArr items) = Inl e"
proof -
  have "\<exists>e'. mapE page_path items = Inl e'"
  proof (rule mapE_throws [OF assms(1)])
    show "\<forall>y \<in> set items. (\<exists>e. page_path y = Inl e) \<or> (\<exists>z. page_path y = Inr z)"
      by (meson sumE)
    show "page_path item = Inl (TypeError ''Cannot read properties of null or undefined: file'')"
      using assms(2) by (rule page_path_nullish)
  qed
  then show ?thesis by (auto simp: parsePageResults_array thenE_def)
qed

text \<open>
  Claim C7. The claim has every element without a resolvable identifier dropped
  silently. The callback reads \<^verbatim>\<open>item.file\<close> off every element that is not a string,
  so an element that is \<^verbatim>\<open>null\<close> or \<^verbatim>\<open>undefined\<close> raises a TypeError instead of
  being dropped, for a flat list and for a wrapped one. The lemmas above give what holds
  otherwise: a list without such an element is mapped to the identifiers of its elements,
  in order, with the unresolved ones (and the empty string) filtered out; a wrapper is
  unwrapped through \<^verbatim>\<open>values\<close>; anything else yields the empty list.
\<close>

theorem parsePageResults_null_element_throws:
  "parsePageResults (JArr [JStr ''a.md'', JNull]) =
     Inl (TypeError ''Cannot read properties of null or undefined: file'') \<and>
   parsePageResults (JObj [(''type'', JStr ''list''), (''values'', JArr [JStr ''a.md'', JNull])]) =
     Inl (TypeError ''Cannot read properties of null or undefined: file'')"
  by (simp add: parsePageResults.simps page_path_def get_prop_def thenE_def field_def)

lemma parsePageResults_examples:
  "parsePageResults (JArr [JStr ''a.md'', JStr ''b.md'']) = Inr [JStr ''a.md'', JStr ''b.md'']"
  "parsePageResults (JArr [JObj [(''file'', JObj [(''path'', JStr ''a.md'')])],
                           JObj [(''path'', JStr ''b.md'')], JNum 7, JObj []]) =
     Inr [JStr ''a.md'', JStr ''b.md'']"
  "parsePageResults (JObj [(''values'', JObj [(''values'', JArr [JStr ''a.md''])])]) = Inr [JStr ''a.md'']"
  "parsePageResults (JNum 7) = Inr []"
  "parsePageResults (JArr [JStr '''', JStr ''a.md'']) = Inr [JStr ''a.md'']"
  by (simp_all add: parsePageResults.simps page_path_def get_prop_def thenE_def field_def)

section \<open>Properties of parseBoardConfig\<close>

lemma isBoardFile_iff:
  "isBoardFile (Some cm) \<longleftrightarrow>
   (\<exists>fm. frontmatter cm = Some fm \<and> field fm ''type'' = JStr ''kanban-board'')"
  by (cases "frontmatter cm")
     (auto simp: isBoardFile_def dest: strict_eq_imp_eq)

lemma parse_column_defined:
  "\<not> nullish col \<Longrightarrow>
   parse_column col =
     Inr \<lparr>name = js_or (opt_prop col ''name'') (JStr ''Unnamed''),
          status = js_or (opt_prop col ''status'') (JStr []),
          color = opt_prop col ''color'',
          limit = opt_prop col ''limit'',
          collapsed = js_coalesce (opt_prop col ''collapsed'') (JBool False)\<rparr>"
  by (simp add: parse_column_def get_prop_def thenE_def)

lemma mapE_length:
  "mapE f xs = Inr ys \<Longrightarrow> length ys = length xs"
  by (induction xs arbitrary: ys) (auto split: sum.splits)

lemma parseBoardConfig_null_iff:
  "parseBoardConfig cm = Inr None \<longleftrightarrow> \<not> isBoardFile (Some cm)"
proof
  assume "\<not> isBoardFile (Some cm)"
  then show "parseBoardConfig cm = Inr None" by (simp add: parseBoardConfig_def)
next
  assume n: "parseBoardConfig cm = Inr None"
  show "\<not> isBoardFile (Some cm)"
  proof
    assume b: "isBoardFile (Some cm)"
    then obtain fm where "frontmatter cm = Some fm" by (auto simp: isBoardFile_iff)
    with b n show False
      by (simp add: parseBoardConfig_def thenE_def split: sum.splits)
  qed
qed

lemma mapE_parse_column:
  assumes "\<forall>col \<in> set raw. \<not> nullish col"
  shows "\<exists>cols. mapE parse_column raw = Inr cols \<and>
           list_all2 (\<lambda>col cc.
              name cc = (if truthy (opt_prop col ''name'') then opt_prop col ''name'' else JStr ''Unnamed'') \<and>
              status cc = (if truthy (opt_prop col ''status'') then opt_prop col ''status'' else JStr []) \<and>
              collapsed cc = (if nullish (opt_prop col ''collapsed'') then JBool False
                              else opt_prop col ''collapsed'') \<and>
              color cc = opt_prop col ''color'' \<and> limit cc = opt_prop col ''limit'') raw cols"
  using assms
proof (induction raw)
  case Nil
  show ?case by simp
next
  case (Cons col raw)
  then obtain cols where "mapE parse_column raw = Inr cols"
    and "list_all2 (\<lambda>col cc.
              name cc = (if truthy (opt_prop col ''name'') then opt_prop col ''name'' else JStr ''Unnamed'') \<and>
              status cc = (if truthy (opt_prop col ''status'') then opt_prop col ''status'' else JStr []) \<and>
              collapsed cc = (if nullish (opt_prop col ''collapsed'') then JBool False
                              else opt_prop col ''collapsed'') \<and>
              color cc = opt_prop col ''color'' \<and> limit cc = opt_prop col ''limit'') raw cols"
    by auto
  moreover from Cons.prems have "\<not> nullish col" by simp
  ultimately show ?case
    by (simp add: parse_column_defined js_or_def js_coalesce_def)
qed

text \<open>
  What \<^verbatim>\<open>parseBoardConfig\<close> does on well-shaped blocks. It returns \<^verbatim>\<open>null\<close> exactly
  when the block is not a board document, that is when its \<^verbatim>\<open>type\<close> is not
  \<open>kanban-board\<close>. For a board document without a \<^verbatim>\<open>columns\<close> field it returns a
  configuration with the empty column list. For a board document whose \<^verbatim>\<open>columns\<close>
  is a list with no \<^verbatim>\<open>null\<close> or \<^verbatim>\<open>undefined\<close> entry it returns a configuration
  with one column per entry, in order, where \<^verbatim>\<open>name\<close> is \<open>Unnamed\<close> when the entry
  has none (or a falsy one), \<^verbatim>\<open>status\<close> is the empty string when the entry has none
  (or a falsy one), \<^verbatim>\<open>collapsed\<close> is \<^verbatim>\<open>false\<close> when the entry has none (or
  \<^verbatim>\<open>null\<close>), and \<^verbatim>\<open>color\<close> and \<^verbatim>\<open>limit\<close> are passed through.
\<close>

lemma parseBoardConfig_normalises:
  "(parseBoardConfig cm = Inr None \<longleftrightarrow> \<not> isBoardFile (Some cm)) \<and>
   (isBoardFile (Some cm) \<longleftrightarrow>
      (\<exists>fm. frontmatter cm = Some fm \<and> field fm ''type'' = JStr ''kanban-board'')) \<and>
   (\<forall>fm. isBoardFile (Some cm) \<longrightarrow> frontmatter cm = Some fm \<longrightarrow>
      map_of fm ''columns'' = None \<longrightarrow>
      (\<exists>cfg. parseBoardConfig cm = Inr (Some cfg) \<and> columns cfg = [])) \<and>
   (\<forall>fm raw. isBoardFile (Some cm) \<longrightarrow> frontmatter cm = Some fm \<longrightarrow>
      field fm ''columns'' = JArr raw \<longrightarrow> (\<forall>col \<in> set raw. \<not> nullish col) \<longrightarrow>
      (\<exists>cfg. parseBoardConfig cm = Inr (Some cfg) \<and>
         list_all2 (\<lambda>col cc.
              name cc = (if truthy (opt_prop col ''name'') then opt_prop col ''name'' else JStr ''Unnamed'') \<and>
              status cc = (if truthy (opt_prop col ''status'') then opt_prop col ''status'' else JStr []) \<and>
              collapsed cc = (if nullish (opt_prop col ''collapsed'') then JBool False
                              else opt_prop col ''collapsed'') \<and>
              color cc = opt_prop col ''color'' \<and> limit cc = opt_prop col ''limit'')
           raw (columns cfg)))"
proof (intro conjI allI impI)
  show "parseBoardConfig cm = Inr None \<longleftrightarrow> \<not> isBoardFile (Some cm)"
    by (rule parseBoardConfig_null_iff)
  show "isBoardFile (Some cm) \<longleftrightarrow>
      (\<exists>fm. frontmatter cm = Some fm \<and> field fm ''type'' = JStr ''kanban-board'')"
    by (rule isBoardFile_iff)
next
  fix fm
  assume "isBoardFile (Some cm)" "frontmatter cm = Some fm" "map_of fm ''columns'' = None"
  then show "\<exists>cfg. parseBoardConfig cm = Inr (Some cfg) \<and> columns cfg = []"
    by (simp add: parseBoardConfig_def field_def js_or_def columns_map_def thenE_def)
next
  fix fm raw
  assume b: "isBoardFile (Some cm)" and fm: "frontmatter cm = Some fm"
    and raw: "field fm ''columns'' = JArr raw" and nn: "\<forall>col \<in> set raw. \<not> nullish col"
  from mapE_parse_column [OF nn] obtain cols where c: "mapE parse_column raw = Inr cols"
    and l: "list_all2 (\<lambda>col cc.
              name cc = (if truthy (opt_prop col ''name'') then opt_prop col ''name'' else JStr ''Unnamed'') \<and>
              status cc = (if truthy (opt_prop col ''status'') then opt_prop col ''status'' else JStr []) \<and>
              collapsed cc = (if nullish (opt_prop col ''collapsed'') then JBool False
                              else opt_prop col ''collapsed'') \<and>
              color cc = opt_prop col ''color'' \<and> limit cc = opt_prop col ''limit'') raw cols"
    by auto
  from b fm raw c have "parseBoardConfig cm =
      Inr (Some \<lparr>btype = ''kanban-board'',
                 boardId = js_or (field fm ''board-id'') (JStr []),
                 columns = cols,
                 cardTemplate = field fm ''card-template'',
                 autoRefresh = js_coalesce (field fm ''auto-refresh'') (JBool True),
                 refreshInterval = js_coalesce (field fm ''refresh-interval'') (JNum 30)\<rparr>)"
    by (simp add: parseBoardConfig_def js_or_def columns_map_def thenE_def)
  with l show "\<exists>cfg. parseBoardConfig cm = Inr (Some cfg) \<and>
         list_all2 (\<lambda>col cc.
              name cc = (if truthy (opt_prop col ''name'') then opt_prop col ''name'' else JStr ''Unnamed'') \<and>
              status cc = (if truthy (opt_prop col ''status'') then opt_prop col ''status'' else JStr []) \<and>
              collapsed cc = (if nullish (opt_prop col ''collapsed'') then JBool False
                              else opt_prop col ''collapsed'') \<and>
              color cc = opt_prop col ''color'' \<and> limit cc = opt_prop col ''limit'')
           raw (columns cfg)"
    by simp
qed

lemma parseBoardConfig_normalises_example:
  "isBoardFile (Some \<lparr>frontmatter = Some [(''type'', JStr ''kanban-board'')]\<rparr>) \<and>
   map_of [(''type'', JStr ''kanban-board'')] ''columns'' = None \<and>
   (\<exists>cfg. parseBoardConfig \<lparr>frontmatter = Some [(''type'', JStr ''kanban-board'')]\<rparr> =
            Inr (Some cfg) \<and> columns cfg = []) \<and>
   isBoardFile (Some \<lparr>frontmatter = Some [(''type'', JStr ''kanban-board''),
       (''columns'', JArr [JObj [(''status'', JStr ''todo'')],
                          JObj [(''name'', JStr ''Done''), (''collapsed'', JBool True)]])]\<rparr>) \<and>
   \<not> nullish (JObj [(''status'', JStr ''todo'')]) \<and>
   \<not> nullish (JObj [(''name'', JStr ''Done''), (''collapsed'', JBool True)]) \<and>
   (\<exists>cfg. parseBoardConfig \<lparr>frontmatter = Some [(''type'', JStr ''kanban-board''),
       (''columns'', JArr [JObj [(''status'', JStr ''todo'')],
                          JObj [(''name'', JStr ''Done''), (''collapsed'', JBool True)]])]\<rparr> =
            Inr (Some cfg) \<and>
          map name (columns cfg) = [JStr ''Unnamed'', JStr ''Done''] \<and>
          map status (columns cfg) = [JStr ''todo'', JStr []] \<and>
          map collapsed (columns cfg) = [JBool False, JBool True]) \<and>
   parseBoardConfig \<lparr>frontmatter = Some [(''type'', JStr ''note'')]\<rparr> = Inr None"
proof -
  let ?c1 = "\<lparr>frontmatter = Some [(''type'', JStr ''kanban-board'')]\<rparr>"
  let ?raw = "[JObj [(''status'', JStr ''todo'')],
               JObj [(''name'', JStr ''Done''), (''collapsed'', JBool True)]]"
  let ?fm2 = "[(''type'', JStr ''kanban-board''), (''columns'', JArr ?raw)]"
  let ?c2 = "\<lparr>frontmatter = Some ?fm2\<rparr>"
  let ?c3 = "\<lparr>frontmatter = Some [(''type'', JStr ''note'')]\<rparr>"
  have b1: "isBoardFile (Some ?c1)" and b2: "isBoardFile (Some ?c2)"
    and b3: "\<not> isBoardFile (Some ?c3)"
    by (simp_all add: isBoardFile_def field_def)
  have m1: "map_of [(''type'', JStr ''kanban-board'')] ''columns'' = None" by simp
  have f2: "field ?fm2 ''columns'' = JArr ?raw" by (simp add: field_def)
  have nn: "\<forall>col \<in> set ?raw. \<not> nullish col" by simp
  from parseBoardConfig_normalises [of ?c1] b1 m1
  have r1: "\<exists>cfg. parseBoardConfig ?c1 = Inr (Some cfg) \<and> columns cfg = []"
    by simp
  have fr: "frontmatter ?c2 = Some ?fm2" by simp
  let ?R = "\<lambda>col cc.
              name cc = (if truthy (opt_prop col ''name'') then opt_prop col ''name'' else JStr ''Unnamed'') \<and>
              status cc = (if truthy (opt_prop col ''status'') then opt_prop col ''status'' else JStr []) \<and>
              collapsed cc = (if nullish (opt_prop col ''collapsed'') then JBool False
                              else opt_prop col ''collapsed'') \<and>
              color cc = opt_prop col ''color'' \<and> limit cc = opt_prop col ''limit''"
  have "\<exists>cfg. parseBoardConfig ?c2 = Inr (Some cfg) \<and> list_all2 ?R ?raw (columns cfg)"
    by (rule parseBoardConfig_normalises
          [of ?c2, THEN conjunct2, THEN conjunct2, THEN conjunct2, rule_format, OF b2 fr f2])
       auto
  then obtain cfg where p: "parseBoardConfig ?c2 = Inr (Some cfg)"
    and l: "list_all2 ?R ?raw (columns cfg)"
    by blast
  from l have r2: "map name (columns cfg) = [JStr ''Unnamed'', JStr ''Done''] \<and>
          map status (columns cfg) = [JStr ''todo'', JStr []] \<and>
          map collapsed (columns cfg) = [JBool False, JBool True]"
    by (auto simp: list_all2_Cons1 field_def)
  from parseBoardConfig_normalises [of ?c3] b3
  have r3: "parseBoardConfig ?c3 = Inr None" by simp
  from b1 m1 r1 b2 p r2 r3 show ?thesis by simp
qed

text \<open>The validator's message for a \<^verbatim>\<open>columns\<close> that is missing or not an array is
  never produced for a configuration that came out of \<^verbatim>\<open>parseBoardConfig\<close>: its
  columns are always an array, and the messages of the loop all start with \<open>Column\<close>.\<close>

lemma forEach_column_messages:
  "forEach_column errs cols index = Inr es \<Longrightarrow> m \<in> set es \<Longrightarrow>
   m \<in> set errs \<or> (\<exists>rest. m = ''Column '' @ rest)"
proof (induction cols arbitrary: errs index)
  case Nil
  then show ?case by simp
next
  case (Cons col cols)
  from Cons.prems(1) obtain nm st where
    "forEach_column
       ((if \<not> truthy nm
         then errs @ [''Column '' @ decimal (index + 1) @ '' missing name'']
         else errs) @
        (if \<not> truthy st
         then [''Column '' @ decimal (index + 1) @ '' missing status value'']
         else []))
       cols (Suc index) = Inr es"
    by (auto split: sum.splits)
  from Cons.IH [OF this Cons.prems(2)] show ?case
    by (auto split: if_splits)
qed

lemma validateBoardConfig_typed_columns_defined:
  assumes "validateBoardConfig (js_of_BoardConfig cfg) = Inr v"
  shows "''Board must have columns defined'' \<notin> set (errors v)"
proof
  assume m: "''Board must have columns defined'' \<in> set (errors v)"
  from assms obtain es where es: "forEach_column
      (if columns cfg = [] then [''Board must have at least one column''] else [])
      (map js_of_ColumnConfig (columns cfg)) 0 = Inr es" and v: "errors v = es"
    by (auto simp: validateBoardConfig_def get_prop_columns_js_of_BoardConfig thenE_def
        columns_forEach_def Let_def split: sum.splits if_splits)
  from forEach_column_messages [OF es] m v show False
    by (auto split: if_splits)
qed

text \<open>
  Claim C9. The claim has \<^verbatim>\<open>parseBoardConfig\<close> return \<^verbatim>\<open>null\<close> or a normalized
  configuration for every metadata block. For a board document whose \<^verbatim>\<open>columns\<close> is
  the string \<open>todo\<close>, and for one whose \<^verbatim>\<open>columns\<close> list has a \<^verbatim>\<open>null\<close> entry, it
  returns neither: it raises a TypeError, although the parser defaults what is absent
  and the validator has a message for a \<^verbatim>\<open>columns\<close> that is not an array.
\<close>

theorem parseBoardConfig_malformed_columns_throw:
  "isBoardFile (Some \<lparr>frontmatter = Some [(''type'', JStr ''kanban-board''),
                                          (''columns'', JStr ''todo'')]\<rparr>) \<and>
   parseBoardConfig \<lparr>frontmatter = Some [(''type'', JStr ''kanban-board''),
                                         (''columns'', JStr ''todo'')]\<rparr> =
     Inl (TypeError ''(fm.columns || []).map is not a function'') \<and>
   isBoardFile (Some \<lparr>frontmatter = Some [(''type'', JStr ''kanban-board''),
                                          (''columns'', JArr [JNull])]\<rparr>) \<and>
   parseBoardConfig \<lparr>frontmatter = Some [(''type'', JStr ''kanban-board''),
                                         (''columns'', JArr [JNull])]\<rparr> =
     Inl (TypeError ''Cannot read properties of null or undefined: name'')"
  by (simp add: parseBoardConfig_def isBoardFile_def field_def js_or_def columns_map_def thenE_def
      parse_column_def get_prop_def)

section \<open>Properties of the renderers\<close>



text \<open>A card with neither an assignee nor tags is drawn without a fault; a card whose
  \<^verbatim>\<open>tags\<close> is a non-empty string, or whose \<^verbatim>\<open>assignee\<close> is a number, is not.\<close>

lemma CardRenderer_render_plain:
  "\<not> truthy (field (metadata c) ''assignee'') \<Longrightarrow> \<not> truthy (field (metadata c) ''tags'') \<Longrightarrow>
   CardRenderer_render h c = Inr ()"
  by (simp add: CardRenderer_render_def thenE_def renderPriority_def renderDueDate_def)

lemma CardRenderer_render_string_tags:
  "\<not> truthy (field (metadata c) ''assignee'') \<Longrightarrow> field (metadata c) ''tags'' = JStr s \<Longrightarrow>
   s \<noteq> [] \<Longrightarrow>
   CardRenderer_render h c = Inl (TypeError ''displayTags.forEach is not a function'')"
  by (simp add: CardRenderer_render_def thenE_def renderPriority_def renderDueDate_def
      renderTags_def tags_slice_def)

lemma CardRenderer_render_number_assignee:
  "field (metadata c) ''assignee'' = JNum n \<Longrightarrow> n \<noteq> 0 \<Longrightarrow>
   CardRenderer_render h c =
     Inl (TypeError ''Cannot read properties of null or undefined: replace'')"
  by (simp add: CardRenderer_render_def thenE_def renderPriority_def renderDueDate_def
      renderAssignee_def get_prop_def string_replace_def)

lemma renderBoard_string_tags_example:
  "renderBoard example_host
     [\<lparr>config = example_column ''Done'' ''done'',
       cards = [(example_card ''a.md'' (JStr ''done''))
                  \<lparr>metadata := [(''status'', JStr ''done''), (''tags'', JStr ''work'')]\<rparr>]\<rparr>] =
   Inl (TypeError ''displayTags.forEach is not a function'')"
  by (simp add: renderBoard_def ColumnRenderer_render_def CardRenderer_render_def thenE_def
      renderPriority_def renderDueDate_def renderTags_def tags_slice_def field_def
      example_card_def)

text \<open>What \<^verbatim>\<open>render\<close> shows once the cards are loaded: the board when drawing it
  succeeds, and otherwise what was drawn so far followed by the error line.\<close>

lemma render_after_loadCards:
  assumes "validateBoardConfig (js_of_BoardConfig cfg) = Inr v" and "valid v"
      and "BoardView_loadCards h api cfg boardFile w = (w1, Inr cols)"
  shows "render h api cfg boardFile w =
           (case renderBoard h cols of
              Inr done \<Rightarrow> Inr (w1, Board cols)
            | Inl e \<Rightarrow>
                Inr (w1\<lparr>console := console w1 @ [(''Board render error:'', LoggedFault e)]\<rparr>,
                     BrokenBoard (''Error: '' @ error_message e)))"
  using assms by (simp add: render_def)

section \<open>Properties of query execution\<close>


lemma DataviewHelper_executeQuery_returns:
  "run query sourcePath = Inr r \<Longrightarrow> \<not> nullish r \<Longrightarrow>
   DataviewHelper_executeQuery (Some run) w query sourcePath =
     (w\<lparr>dataview_calls := dataview_calls w @ [(query, sourcePath)]\<rparr>,
      \<lparr>successful = opt_prop r ''successful'', qvalue = opt_prop r ''value'',
       error = opt_prop r ''error''\<rparr>)"
  by (simp add: DataviewHelper_executeQuery_def thenE_def get_prop_def)

lemma DataviewHelper_executeQuery_unavailable:
  "DataviewHelper_executeQuery None w query sourcePath =
     (w, \<lparr>successful = JBool False, qvalue = JUndefined,
          error = JStr ''Dataview plugin is not installed or enabled''\<rparr>)"
  by (simp add: DataviewHelper_executeQuery_def)






section \<open>The move followed by a materialization\<close>

lemma calls_do_not_touch_files:
  "getFileCache (w\<lparr>dataview_calls := x\<rparr>) g = getFileCache w g"
  "getAbstractFileByPath (w\<lparr>dataview_calls := x\<rparr>) p = getAbstractFileByPath w p"
  "vault_read h (w\<lparr>dataview_calls := x\<rparr>) g = vault_read h w g"
  by (simp_all add: getFileCache_def getAbstractFileByPath_def vault_read_def)

lemma getAbstractFileByPath_path:
  "getAbstractFileByPath w s = Some (IsFile g) \<Longrightarrow> path g = s"
  by (auto simp: getAbstractFileByPath_def split: option.splits entry.splits)

lemma getFilesFromPaths_member:
  "g \<in> set (getFilesFromPaths w ps) \<longleftrightarrow>
   (\<exists>s. JStr s \<in> set ps \<and> getAbstractFileByPath w s = Some (IsFile g))"
proof (induction ps)
  case Nil
  show ?case by simp
next
  case (Cons p ps)
  show ?case
  proof (cases p)
    case (JStr s)
    then show ?thesis
      using Cons.IH
      by (cases "getAbstractFileByPath w s")
         (auto split: TAbstractFile.splits)
  qed (use Cons.IH in auto)
qed

lemma loadCard_loaded:
  assumes "loadCard h w g = Inr (Some c)"
  obtains cm fm where "getFileCache w g = Some cm" and "frontmatter cm = Some fm"
    and "cf_path (card_file c) = path g" and "card_status c = field fm ''status''"
proof -
  from assms loadCard_no_metadata [of w g h] have "getCardMetadata w g \<noteq> None"
    by (cases "getCardMetadata w g") auto
  then obtain cm fm where c: "getFileCache w g = Some cm" "frontmatter cm = Some fm"
    by (auto simp: getCardMetadata_def split: option.splits)
  then obtain cd where "loadCard h w g = Inr (Some cd)" "cf_path (card_file cd) = path g"
    "card_status cd = field fm ''status''"
    by (rule loadCard_with_metadata)
  with assms c show thesis by (intro that [of cm fm]) simp_all
qed

lemma set_map_filter_iff:
  "y \<in> set (List.map_filter fn xs) \<longleftrightarrow> (\<exists>x \<in> set xs. fn x = Some y)"
  by (induction xs) (auto split: option.splits)

lemma loadCards_member:
  assumes "CardManager_loadCards h w fs = Inr cs"
  shows "c \<in> set cs \<longleftrightarrow> (\<exists>g \<in> set fs. loadCard h w g = Inr (Some c))"
proof -
  from assms have cs: "cs = List.map_filter (\<lambda>f. case loadCard h w f of Inr r \<Rightarrow> r | Inl e \<Rightarrow> None) fs"
    by (simp add: loadCards_in_order)
  have eq: "((case loadCard h w g of Inr r \<Rightarrow> r | Inl e \<Rightarrow> None) = Some c) =
            (loadCard h w g = Inr (Some c))" for g
    by (cases "loadCard h w g") auto
  show ?thesis by (simp add: cs set_map_filter_iff eq)
qed

lemma validateBoardConfig_typed_total:
  "\<exists>v. validateBoardConfig (js_of_BoardConfig cfg) = Inr v"
proof -
  have "\<exists>es. forEach_column errs (map js_of_ColumnConfig cols) index = Inr es" for errs cols index
    by (induction cols arbitrary: errs index) (simp_all add: get_prop_js_of_ColumnConfig)
  then show ?thesis
    by (simp add: validateBoardConfig_def get_prop_columns_js_of_BoardConfig thenE_def
        columns_forEach_def Let_def split: sum.splits) (metis sum.distinct(1) sumE)
qed

text \<open>
  A card is moved to \<open>done\<close> and the board, with a column of status \<open>done\<close>, is
  materialized again with a query that selects the card and whose result
  \<^verbatim>\<open>parsePageResults\<close> reads without a fault. The materialization yields the declared
  columns, and the card is held by a column exactly when that column's status is
  \<open>done\<close>: it is in the \<open>done\<close> column and in no column of another status, its prior
  column included.
\<close>

lemma move_to_done_then_materialize:
  assumes moved: "updateStatus h w f ''done'' now = Inr w1"
      and board: "vault_read h w1 boardFile = Inr body_text"
      and done_col: "\<exists>col \<in> set (columns cfg). status col = JStr ''done''"
      and query: "run (board_query h cfg body_text) (path boardFile) = Inr result"
                 "truthy (opt_prop result ''successful'')"
                 "parsePageResults (opt_prop result ''value'') = Inr paths"
                 "JStr (path f) \<in> set paths"
  shows "\<exists>w2 cols. BoardView_loadCards h (Some run) cfg boardFile w1 = (w2, Inr cols) \<and>
           map config cols = columns cfg \<and>
           (\<exists>col \<in> set cols. status (config col) = JStr ''done'') \<and>
           (\<forall>col \<in> set cols.
              (\<exists>c \<in> set (cards col). cf_path (card_file c) = path f) \<longleftrightarrow>
              status (config col) = JStr ''done'')"
proof -
  let ?q = "board_query h cfg body_text"
  let ?w2 = "w1\<lparr>dataview_calls := dataview_calls w1 @ [(?q, path boardFile)]\<rparr>"
  let ?fs = "getFilesFromPaths ?w2 paths"
  let ?fm = "status_callback ''done'' now (current_frontmatter w f)"
  from moved have p: "processFrontMatter h w f (status_callback ''done'' now) = Inr w1"
    by (simp add: updateStatus_def updateCardStatus_def)
  have cache: "getFileCache ?w2 g = Some \<lparr>frontmatter = Some ?fm\<rparr>" if "path g = path f" for g
    using that by (simp add: calls_do_not_touch_files getFileCache_after_processFrontMatter [OF p])
  have st: "field ?fm ''status'' = JStr ''done''"
    by (simp add: field_def status_callback_lookup)
  from p obtain d where "map_of (files w1) (path f) = Some (File d)"
    by (elim processFrontMatter_files) simp
  then have tf: "getAbstractFileByPath ?w2 (path f) =
                 Some (IsFile \<lparr>path = path f, basename = base d\<rparr>)"
    by (simp add: getAbstractFileByPath_def)
  from query(2) have nn: "\<not> nullish result" by (cases result) simp_all
  have dv: "DataviewHelper_executeQuery (Some run) w1 ?q (path boardFile) =
              (?w2, \<lparr>successful = opt_prop result ''successful'', qvalue = opt_prop result ''value'',
                     error = opt_prop result ''error''\<rparr>)"
    by (rule DataviewHelper_executeQuery_returns [of run ?q "path boardFile" result w1,
          OF query(1) nn])
  obtain cs where cs: "CardManager_loadCards h ?w2 ?fs = Inr cs"
    by (simp add: loadCards_in_order)
  have qe: "QueryExecutor_executeQuery h (Some run) w1 ?q (path boardFile) = (?w2, Inr cs)"
    by (simp add: QueryExecutor_executeQuery_def dv query(2,3) thenE_def cs)
  have r: "BoardView_loadCards h (Some run) cfg boardFile w1 = (?w2, Inr (groupCards cfg cs))"
    by (simp add: BoardView_loadCards_def board qe)
  have here: "\<exists>c \<in> set cs. cf_path (card_file c) = path f"
  proof -
    let ?g = "\<lparr>path = path f, basename = base d\<rparr>"
    have "?g \<in> set ?fs"
      using query(4) tf by (auto simp: getFilesFromPaths_member)
    moreover obtain c where "loadCard h ?w2 ?g = Inr (Some c)" "cf_path (card_file c) = path ?g"
      by (rule loadCard_with_metadata [of ?w2 ?g "\<lparr>frontmatter = Some ?fm\<rparr>" ?fm h])
         (simp_all add: cache)
    ultimately have "c \<in> set cs"
      using loadCards_member [OF cs, of c] by blast
    with \<open>cf_path (card_file c) = path ?g\<close> show ?thesis
      by (intro bexI [of _ c]) simp_all
  qed
  have is_done: "card_status c = JStr ''done''"
    if c_in: "c \<in> set cs" and c_path: "cf_path (card_file c) = path f" for c
  proof -
    from c_in obtain g where "loadCard h ?w2 g = Inr (Some c)"
      by (auto simp: loadCards_member [OF cs])
    then obtain cm fm where "getFileCache ?w2 g = Some cm" "frontmatter cm = Some fm"
      "cf_path (card_file c) = path g" "card_status c = field fm ''status''"
      by (rule loadCard_loaded)
    with c_path cache [of g] st show ?thesis by auto
  qed
  have cols: "(\<exists>c \<in> set (cards col). cf_path (card_file c) = path f) \<longleftrightarrow>
              status (config col) = JStr ''done''"
    if mem: "col \<in> set (groupCards cfg cs)" for col
  proof
    assume "\<exists>c \<in> set (cards col). cf_path (card_file c) = path f"
    then obtain c where c: "c \<in> set cs" "strict_eq (card_status c) (status (config col))"
      "cf_path (card_file c) = path f"
      by (auto simp: groupCards_member [OF mem])
    with is_done [of c] show "status (config col) = JStr ''done''"
      by (auto dest: strict_eq_imp_eq)
  next
    assume s: "status (config col) = JStr ''done''"
    from here obtain c where c: "c \<in> set cs" "cf_path (card_file c) = path f" by blast
    with is_done [of c] s have "c \<in> set (cards col)"
      by (simp add: groupCards_member [OF mem])
    with c show "\<exists>c \<in> set (cards col). cf_path (card_file c) = path f" by blast
  qed
  have ex: "\<exists>col \<in> set (groupCards cfg cs). status (config col) = JStr ''done''"
  proof -
    from done_col obtain cc where cc: "cc \<in> set (columns cfg)" "status cc = JStr ''done''"
      by blast
    let ?col = "\<lparr>config = cc,
                 cards = filter (\<lambda>c. strict_eq (card_status c) (status cc)) cs\<rparr>"
    from cc(1) have "?col \<in> set (groupCards cfg cs)" by (simp add: groupCards_def)
    with cc(2) show ?thesis by (intro bexI [of _ ?col]) simp_all
  qed
  from r cols ex show ?thesis
    by (auto simp: groupCards_config)
qed

lemma move_to_done_then_materialize_example:
  "updateStatus example_host example_world (example_file ''a.md'') ''done''
     ''2025-06-01T09:00:00.000Z'' = Inr example_world_moved \<and>
   (\<exists>w2 cols.
      BoardView_loadCards example_host (Some example_engine)
        (example_board [example_column ''Todo'' ''todo'', example_column ''Done'' ''done''])
        (example_file ''board.md'') example_world_moved = (w2, Inr cols) \<and>
      map config cols =
        columns (example_board [example_column ''Todo'' ''todo'', example_column ''Done'' ''done'']) \<and>
      (\<exists>col \<in> set cols. status (config col) = JStr ''done'') \<and>
      (\<forall>col \<in> set cols.
         (\<exists>c \<in> set (cards col). cf_path (card_file c) = path (example_file ''a.md'')) \<longleftrightarrow>
         status (config col) = JStr ''done''))"
proof -
  let ?cfg = "example_board [example_column ''Todo'' ''todo'', example_column ''Done'' ''done'']"
  let ?payload = "JObj [(''values'', JArr [JObj [(''file'', JObj [(''path'', JStr ''a.md'')])]])]"
  let ?result = "JObj [(''successful'', JBool True), (''value'', ?payload)]"
  have m: "updateStatus example_host example_world (example_file ''a.md'') ''done''
     ''2025-06-01T09:00:00.000Z'' = Inr example_world_moved"
    by (simp add: updateStatus_def updateCardStatus_def processFrontMatter_def example_world_def
        example_world_moved_def example_file_def example_document_def status_callback_def
        current_frontmatter_def getFileCache_def)
  have b: "vault_read example_host example_world_moved (example_file ''board.md'') = Inr []"
    by (simp add: vault_read_def example_world_moved_def example_file_def example_document_def)
  have d: "\<exists>col \<in> set (columns ?cfg). status col = JStr ''done''"
    by (simp add: example_board_def example_column_def)
  have q: "example_engine (board_query example_host ?cfg []) (path (example_file ''board.md'')) =
           Inr ?result"
    by (simp add: example_engine_def)
  have s: "truthy (opt_prop ?result ''successful'')" by (simp add: field_def)
  have pv: "parsePageResults (opt_prop ?result ''value'') = Inr [JStr ''a.md'']"
    by (simp add: parsePageResults.simps page_path_def get_prop_def thenE_def field_def)
  have i: "JStr (path (example_file ''a.md'')) \<in> set [JStr ''a.md'']"
    by (simp add: example_file_def)
  from m move_to_done_then_materialize [where run = example_engine, OF m b d q s pv i]
  show ?thesis by (intro conjI)
qed

text \<open>
  Claim C6. The claim has the moved card in the \<open>done\<close> column after the next
  materialization, for every card the board's query selects. With \<^verbatim>\<open>a.md\<close> moved to
  \<open>done\<close> and a query whose list result holds \<^verbatim>\<open>a.md\<close> and a \<^verbatim>\<open>null\<close> element,
  \<^verbatim>\<open>parsePageResults\<close> raises its TypeError on the \<^verbatim>\<open>null\<close> element, the
  materialization yields no column at all, and \<^verbatim>\<open>render\<close> shows the error line where
  the board should be.
\<close>

theorem move_to_done_null_element_fault:
  "updateStatus example_host example_world (example_file ''a.md'') ''done''
     ''2025-06-01T09:00:00.000Z'' = Inr example_world_moved \<and>
   snd (BoardView_loadCards example_host (Some null_element_engine)
          (example_board [example_column ''Todo'' ''todo'', example_column ''Done'' ''done''])
          (example_file ''board.md'') example_world_moved) =
     Inl (TypeError ''Cannot read properties of null or undefined: file'') \<and>
   map_option snd
     (case render example_host (Some null_element_engine)
             (example_board [example_column ''Todo'' ''todo'', example_column ''Done'' ''done''])
             (example_file ''board.md'') example_world_moved of
        Inr shown \<Rightarrow> Some shown
      | Inl e \<Rightarrow> None) =
     Some (ErrorLine ''Error: Cannot read properties of null or undefined: file'')"
proof -
  let ?cfg = "example_board [example_column ''Todo'' ''todo'', example_column ''Done'' ''done'']"
  have m: "updateStatus example_host example_world (example_file ''a.md'') ''done''
     ''2025-06-01T09:00:00.000Z'' = Inr example_world_moved"
    by (simp add: updateStatus_def updateCardStatus_def processFrontMatter_def example_world_def
        example_world_moved_def example_file_def example_document_def status_callback_def
        current_frontmatter_def getFileCache_def)
  have v: "validateBoardConfig (js_of_BoardConfig ?cfg) = Inr \<lparr>valid = True, errors = []\<rparr>"
    by (simp add: validateBoardConfig_def thenE_def columns_forEach_def get_prop_def field_def
        js_of_BoardConfig_def js_of_ColumnConfig_def example_board_def example_column_def)
  have b: "vault_read example_host example_world_moved (example_file ''board.md'') = Inr []"
    by (simp add: vault_read_def example_world_moved_def example_file_def example_document_def)
  have pv: "parsePageResults
              (JObj [(''type'', JStr ''list''), (''values'', JArr [JStr ''a.md'', JNull])]) =
            Inl (TypeError ''Cannot read properties of null or undefined: file'')"
    by (simp add: parsePageResults.simps page_path_def get_prop_def thenE_def field_def)
  have l: "snd (BoardView_loadCards example_host (Some null_element_engine) ?cfg
                  (example_file ''board.md'') example_world_moved) =
           Inl (TypeError ''Cannot read properties of null or undefined: file'')"
    by (simp add: BoardView_loadCards_def b QueryExecutor_executeQuery_def
        DataviewHelper_executeQuery_def null_element_engine_def thenE_def get_prop_def field_def pv
        split: prod.splits)
  have r: "map_option snd
     (case render example_host (Some null_element_engine) ?cfg
             (example_file ''board.md'') example_world_moved of
        Inr shown \<Rightarrow> Some shown
      | Inl e \<Rightarrow> None) =
     Some (ErrorLine ''Error: Cannot read properties of null or undefined: file'')"
  proof -
    from l obtain w1 where
      "BoardView_loadCards example_host (Some null_element_engine) ?cfg
         (example_file ''board.md'') example_world_moved =
       (w1, Inl (TypeError ''Cannot read properties of null or undefined: file''))"
      by (cases "BoardView_loadCards example_host (Some null_element_engine) ?cfg
                   (example_file ''board.md'') example_world_moved") auto
    then show ?thesis by (simp add: render_def v)
  qed
  from m l r show ?thesis by (intro conjI)
qed

section \<open>A fault while loading\<close>

text \<open>A fault of \<^verbatim>\<open>parsePageResults\<close> leaves \<^verbatim>\<open>QueryExecutor.executeQuery\<close> as it is
  and is caught by \<^verbatim>\<open>render\<close>, which shows an error line in place of the board.\<close>

lemma render_parse_fault:
  assumes "validateBoardConfig (js_of_BoardConfig cfg) = Inr v" and "valid v"
      and "vault_read h w boardFile = Inr body_text"
      and "run (board_query h cfg body_text) (path boardFile) = Inr result"
      and "truthy (opt_prop result ''successful'')"
      and "parsePageResults (opt_prop result ''value'') = Inl e"
  shows "render h (Some run) cfg boardFile w =
           Inr (w\<lparr>dataview_calls :=
                    dataview_calls w @ [(board_query h cfg body_text, path boardFile)],
                  console := console w @ [(''Board render error:'', LoggedFault e)]\<rparr>,
                ErrorLine (''Error: '' @ error_message e))"
proof -
  from assms(5) have nn: "\<not> nullish result" by (cases result) simp_all
  have dv: "DataviewHelper_executeQuery (Some run) w (board_query h cfg body_text) (path boardFile) =
              (w\<lparr>dataview_calls :=
                   dataview_calls w @ [(board_query h cfg body_text, path boardFile)]\<rparr>,
               \<lparr>successful = opt_prop result ''successful'', qvalue = opt_prop result ''value'',
                 error = opt_prop result ''error''\<rparr>)"
    by (rule DataviewHelper_executeQuery_returns
          [of run "board_query h cfg body_text" "path boardFile" result w, OF assms(4) nn])
  show ?thesis
    by (simp add: render_def assms(1,2,3,5,6) BoardView_loadCards_def
        QueryExecutor_executeQuery_def dv thenE_def)
qed

end
